theory Spec2Isabelle
  imports Complex_Main
begin

section \<open>Floating-point values\<close>

text \<open>
  The simulation computes with Python floats. Finite values are modelled as exact
  reals (rounding and overflow of finite arithmetic are not modelled); the IEEE special
  values, which the source constructs literally with \<^verbatim>\<open>float('inf')\<close> and
  \<^verbatim>\<open>float('nan')\<close> and compares against, are explicit constructors. The inputs of
  a scenario are finite.
\<close>

datatype pyfloat = Fin real | PInf | NInf | NaN

fun fneg :: "pyfloat \<Rightarrow> pyfloat" where
  "fneg (Fin a) = Fin (- a)"
| "fneg PInf = NInf"
| "fneg NInf = PInf"
| "fneg NaN = NaN"

text \<open>An infinity multiplied by a finite factor: the sign decides, zero gives NaN.\<close>

definition inf_times :: "pyfloat \<Rightarrow> real \<Rightarrow> pyfloat" where
  "inf_times i a = (if 0 < a then i else if a < 0 then fneg i else NaN)"

fun fmul :: "pyfloat \<Rightarrow> pyfloat \<Rightarrow> pyfloat" where
  "fmul (Fin a) (Fin b) = Fin (a * b)"
| "fmul (Fin a) PInf = inf_times PInf a"
| "fmul (Fin a) NInf = inf_times NInf a"
| "fmul PInf (Fin b) = inf_times PInf b"
| "fmul NInf (Fin b) = inf_times NInf b"
| "fmul PInf PInf = PInf"
| "fmul PInf NInf = NInf"
| "fmul NInf PInf = NInf"
| "fmul NInf NInf = PInf"
| "fmul NaN _ = NaN"
| "fmul _ NaN = NaN"

fun fadd :: "pyfloat \<Rightarrow> pyfloat \<Rightarrow> pyfloat" where
  "fadd (Fin a) (Fin b) = Fin (a + b)"
| "fadd (Fin a) PInf = PInf"
| "fadd (Fin a) NInf = NInf"
| "fadd PInf (Fin b) = PInf"
| "fadd NInf (Fin b) = NInf"
| "fadd PInf PInf = PInf"
| "fadd NInf NInf = NInf"
| "fadd PInf NInf = NaN"
| "fadd NInf PInf = NaN"
| "fadd NaN _ = NaN"
| "fadd _ NaN = NaN"

definition fsub :: "pyfloat \<Rightarrow> pyfloat \<Rightarrow> pyfloat" where
  "fsub a b = fadd a (fneg b)"

text \<open>Comparisons: every comparison with NaN is false.\<close>

fun flt :: "pyfloat \<Rightarrow> pyfloat \<Rightarrow> bool" where
  "flt (Fin a) (Fin b) = (a < b)"
| "flt (Fin a) PInf = True"
| "flt NInf (Fin b) = True"
| "flt NInf PInf = True"
| "flt _ _ = False"

fun fle :: "pyfloat \<Rightarrow> pyfloat \<Rightarrow> bool" where
  "fle (Fin a) (Fin b) = (a \<le> b)"
| "fle (Fin a) PInf = True"
| "fle NInf (Fin b) = True"
| "fle NInf NInf = True"
| "fle NInf PInf = True"
| "fle PInf PInf = True"
| "fle _ _ = False"

fun feq :: "pyfloat \<Rightarrow> pyfloat \<Rightarrow> bool" where
  "feq NaN _ = False"
| "feq _ NaN = False"
| "feq a b = (a = b)"

datatype py_error = ValueError

text \<open>
  \<^verbatim>\<open>math.pow(x, y)\<close> on finite arguments: a zero base with a negative exponent and a
  negative base with a fractional exponent raise ValueError; \<^verbatim>\<open>pow(0, 0) = 1\<close>.
\<close>

definition math_pow :: "real \<Rightarrow> real \<Rightarrow> py_error + real" where
  "math_pow x y =
     (if 0 < x then Inr (x powr y)
      else if x = 0 then (if y < 0 then Inl ValueError else if y = 0 then Inr 1 else Inr 0)
      else if y = of_int \<lfloor>y\<rfloor>
           then Inr ((if even \<lfloor>y\<rfloor> then 1 else - 1) * (\<bar>x\<bar> powr y))
           else Inl ValueError)"

section \<open>Constants\<close>

definition EPSILON :: real where
  "EPSILON = 1 / 10 ^ 9"

definition MAX_SIMULATION_DAYS :: nat where
  "MAX_SIMULATION_DAYS = 1000"

section \<open>Range expansion (\<^verbatim>\<open>float_range\<close>, \<^verbatim>\<open>get_variable_values_from_user\<close>)\<close>

text \<open>
  The two while loops of \<^verbatim>\<open>float_range\<close>, with the list built so far as accumulator.
  Not returning is the value \<open>None\<close>.
\<close>

partial_function (option) float_range_up :: "real \<Rightarrow> real \<Rightarrow> real \<Rightarrow> real list \<Rightarrow> real list option" where
  "float_range_up start end' step vals =
     (if start \<le> end' + EPSILON then float_range_up (start + step) end' step (vals @ [start])
      else Some vals)"

partial_function (option) float_range_down :: "real \<Rightarrow> real \<Rightarrow> real \<Rightarrow> real list \<Rightarrow> real list option" where
  "float_range_down start end' step vals =
     (if start \<ge> end' - EPSILON then float_range_down (start + step) end' step (vals @ [start])
      else Some vals)"

definition float_range :: "real \<Rightarrow> real \<Rightarrow> real \<Rightarrow> real list option" where
  "float_range start end' step =
     (if step > 0 then float_range_up start end' step []
      else float_range_down start end' step [])"

text \<open>\<^verbatim>\<open>round(v, 6)\<close>: to six decimals, a tie going to the even neighbour.\<close>

definition py_round6 :: "real \<Rightarrow> real" where
  "py_round6 v =
     (let s = v * 10 ^ 6; f = \<lfloor>s\<rfloor>; r = s - of_int f
      in of_int (if r < 1 / 2 then f else if 1 / 2 < r then f + 1
                 else if even f then f else f + 1) / 10 ^ 6)"

text \<open>
  What the user typed, after the split at commas and the conversion of each part by
  \<^verbatim>\<open>float\<close>: one value, or start, end and step. Text that is neither is asked for
  again and never reaches this point.
\<close>

datatype var_spec = Single real | Triple real real real

datatype 'a prompt_result = Reprompt | Values 'a

definition get_variable_values_from_user :: "var_spec \<Rightarrow> real list prompt_result option" where
  "get_variable_values_from_user spec =
     (case spec of
        Single v \<Rightarrow> Some (Values [v])
      | Triple start end' step \<Rightarrow>
          if step = 0 then Some Reprompt
          else
            (case (if step > 0 then float_range start (end' + EPSILON) step
                   else float_range start (end' - EPSILON) step) of
               None \<Rightarrow> None
             | Some vals \<Rightarrow>
                 if vals = [] then Some (Values [start])
                 else Some (Values (map py_round6 vals))))"

section \<open>Scenario enumeration (\<^verbatim>\<open>main\<close>)\<close>

text \<open>\<^verbatim>\<open>itertools.product(*lists)\<close>: the last list varies fastest.\<close>

fun itertools_product :: "'a list list \<Rightarrow> 'a list list" where
  "itertools_product [] = [[]]"
| "itertools_product (xs # xss) =
     concat (map (\<lambda>x. map (\<lambda>rest. x # rest) (itertools_product xss)) xs)"

text \<open>
  The value lists of the variables, in the declared order; \<open>None\<close> when a prompt does
  not return, or asks again (the model has no further input to answer with).
\<close>

fun scenario_value_lists :: "var_spec list \<Rightarrow> real list list option" where
  "scenario_value_lists [] = Some []"
| "scenario_value_lists (spec # specs) =
     (case get_variable_values_from_user spec of
        Some (Values vals) \<Rightarrow>
          (case scenario_value_lists specs of
             Some rest \<Rightarrow> Some (vals # rest)
           | None \<Rightarrow> None)
      | _ \<Rightarrow> None)"

text \<open>
  Lines 313 and 330 to 333: \<^verbatim>\<open>enumerate(all_scenario_combinations)\<close> with
  \<^verbatim>\<open>scenario_id = i + 1\<close>. The confirmation that \<^verbatim>\<open>main\<close> asks for above 10000
  scenarios is not part of this function.
\<close>

definition enumerate_scenarios :: "var_spec list \<Rightarrow> (nat \<times> real list) list option" where
  "enumerate_scenarios specs =
     (case scenario_value_lists specs of
        None \<Rightarrow> None
      | Some value_lists \<Rightarrow>
          (let all_scenario_combinations = itertools_product value_lists
           in Some (map (\<lambda>i. (i + 1, all_scenario_combinations ! i))
                        [0 ..< length all_scenario_combinations])))"

section \<open>One scenario (\<^verbatim>\<open>simulate_one_scenario\<close>)\<close>

record inputs =
  R_in :: real
  B_in :: real
  YR_in :: real
  YB_in :: real
  d_in :: real
  fr_in :: real
  fe_in :: real
  Vr_in :: real
  Va_in :: real
  wa_in :: real
  wth_in :: real
  k1_in :: real
  k2_in :: real
  k3_in :: real
  k4_in :: real
  k5_in :: real
  k6_in :: real
  k7_in :: real
  k8_in :: real
  k9_in :: real

text \<open>The values computed once, before the day loop.\<close>

record static =
  wth :: real
  d :: real
  TR_calc :: real
  TB_calc :: real
  TC_calc :: real
  T_rho_calc :: real
  Ps_calc :: real
  H_calc :: real
  rho1_calc :: pyfloat
  rho2_calc :: real
  r0_initial_calc :: real
  b0_initial_calc :: real
  Ca_static_calc :: real
  delta_r_daily_rate :: pyfloat

text \<open>
  Lines 94 to 134, one definition for each assignment. \<open>wth_norm\<close> and \<open>d_norm\<close>
  are \<^verbatim>\<open>wth_in\<close> and \<^verbatim>\<open>d_in\<close> after their reassignment in lines 94 and 95.
\<close>

definition wth_norm :: "inputs \<Rightarrow> real" where
  "wth_norm inp = (if wth_in inp \<le> EPSILON then EPSILON else wth_in inp)"

definition d_norm :: "inputs \<Rightarrow> real" where
  "d_norm inp = (if d_in inp \<le> 0 then EPSILON else d_in inp)"

definition TR_of :: "inputs \<Rightarrow> real" where
  "TR_of inp = (if YR_in inp \<ge> 1900 then (YR_in inp - 1900) / 10 else 0)"

definition TB_of :: "inputs \<Rightarrow> real" where
  "TB_of inp = (if YB_in inp \<ge> 1900 then (YB_in inp - 1900) / 10 else 0)"

definition TC_of :: "inputs \<Rightarrow> real" where
  "TC_of inp =
     (if TR_of inp > - EPSILON then (TB_of inp)\<^sup>2 / (TR_of inp + EPSILON)
      else (TB_of inp)\<^sup>2 / EPSILON)"

definition T_rho_of :: "inputs \<Rightarrow> real" where
  "T_rho_of inp =
     (if TB_of inp > - EPSILON then (TR_of inp)\<^sup>2 / (TB_of inp + EPSILON)
      else (TR_of inp)\<^sup>2 / EPSILON)"

text \<open>Lines 103 to 112: the ValueError of the power is caught here.\<close>

definition Ps_of :: "inputs \<Rightarrow> real" where
  "Ps_of inp =
     (let exp_ps = - k2_in inp * Vr_in inp
      in if TR_of inp \<le> EPSILON then 0
         else (case math_pow (TR_of inp) exp_ps of
                 Inr Ps_val \<Rightarrow> min (max Ps_val 0) 1
               | Inl e \<Rightarrow> 0))"

definition H_of :: "inputs \<Rightarrow> real" where
  "H_of inp = k1_in inp * (1 - fe_in inp)"

text \<open>
  Line 116: the power is outside any \<^verbatim>\<open>try\<close>, so its ValueError leaves the
  function. \<open>None\<close> is the source's \<^verbatim>\<open>float('nan')\<close>.
\<close>

definition rho1_denominator_of :: "inputs \<Rightarrow> py_error + real option" where
  "rho1_denominator_of inp =
     (if T_rho_of inp \<ge> 0 then map_sum id Some (math_pow (T_rho_of inp) (k4_in inp))
      else Inr None)"

text \<open>Lines 117 to 120.\<close>

definition rho1_of :: "inputs \<Rightarrow> real option \<Rightarrow> pyfloat" where
  "rho1_of inp rho1_denominator =
     (let numerator = k9_in inp * B_in inp * fr_in inp * Ps_of inp
      in case rho1_denominator of
           None \<Rightarrow> (if numerator > 0 then PInf else Fin 0)
         | Some dn \<Rightarrow>
             if \<bar>dn\<bar> < EPSILON then (if numerator > 0 then PInf else Fin 0)
             else Fin (numerator / dn))"

definition rho2_of :: "inputs \<Rightarrow> real" where
  "rho2_of inp = (k3_in inp * B_in inp * (1 - fr_in inp)) / wth_norm inp"

definition r0_of :: "inputs \<Rightarrow> real" where
  "r0_of inp = R_in inp - rho2_of inp * (wth_norm inp - wa_in inp)"

definition b0_of :: "inputs \<Rightarrow> real" where
  "b0_of inp = (B_in inp * (1 - fr_in inp) * wa_in inp) / (wth_norm inp * d_norm inp)"

text \<open>Lines 128 and 129.\<close>

definition Ca_of :: "inputs \<Rightarrow> real" where
  "Ca_of inp =
     (let Ca = k7_in inp * (1 - fe_in inp) * TC_of inp * b0_of inp * (Va_in inp + k8_in inp)
      in if Ca < 0 then 0 else Ca)"

text \<open>Lines 131 and 132.\<close>

definition delta_r_of :: "inputs \<Rightarrow> pyfloat \<Rightarrow> pyfloat" where
  "delta_r_of inp rho1 =
     (let delta = fadd (Fin (Ca_of inp * Va_in inp))
                       (fmul (fmul (Fin 2) rho1) (Fin (Va_in inp)))
      in if flt delta (Fin 0) then Fin 0 else delta)"

definition static_calculations :: "inputs \<Rightarrow> py_error + static" where
  "static_calculations inp =
     (case rho1_denominator_of inp of
        Inl e \<Rightarrow> Inl e
      | Inr rho1_denominator \<Rightarrow>
          Inr \<lparr>wth = wth_norm inp, d = d_norm inp, TR_calc = TR_of inp, TB_calc = TB_of inp,
               TC_calc = TC_of inp, T_rho_calc = T_rho_of inp, Ps_calc = Ps_of inp,
               H_calc = H_of inp, rho1_calc = rho1_of inp rho1_denominator,
               rho2_calc = rho2_of inp, r0_initial_calc = r0_of inp,
               b0_initial_calc = b0_of inp, Ca_static_calc = Ca_of inp,
               delta_r_daily_rate = delta_r_of inp (rho1_of inp rho1_denominator)\<rparr>)"

text \<open>
  One row of the daily log. The numbers are kept as numbers: the source formats most of
  them into strings of fixed precision when it builds the row, which is not modelled.
  \<open>row_inputs\<close> and \<open>row_static\<close> stand for the copies of the inputs and of the
  static calculations that every row carries.
\<close>

record daily_row =
  Scenario_ID :: nat
  Day :: nat
  row_inputs :: inputs
  row_static :: static
  rt_SOD :: pyfloat
  bt_SOD :: real
  Reinforcements_Today_Survived :: real
  Km_Gained_Today :: real
  Km_Gained_Cumulative :: real
  Inv_Cas_POA_Today :: real
  Inv_Cas_POA_Cumulative_OnAxis :: real
  Def_Cas_POA_Today :: real
  Def_Cas_Reserves_Today :: real
  Def_Cas_Total_Today :: real
  Def_Cas_Cumulative_no_k6 :: real
  rt_EOD :: pyfloat
  bt_EOD :: real
  Halt_Condition_Met_SOD :: nat
  Simulation_Continues_Next_Day :: nat

text \<open>The local variables that live across the iterations of the day loop.\<close>

record sim_state =
  rt_current :: pyfloat
  bt_current :: real
  G_cumulative :: real
  CR_cumulative_on_axis :: real
  CB_cumulative_no_k6 :: real
  daily_log_for_scenario :: "daily_row list"
  simulation_active :: bool
  breakthrough_occurred_flag :: nat
  halt_occurred_this_scenario_flag :: nat
  final_day_of_simulation :: nat
  day :: nat

text \<open>Lines 137 to 149.\<close>

definition initial_state :: "static \<Rightarrow> sim_state" where
  "initial_state st =
     \<lparr>rt_current = (if r0_initial_calc st < 0 then Fin 0 else Fin (r0_initial_calc st)),
      bt_current = b0_initial_calc st,
      G_cumulative = 0,
      CR_cumulative_on_axis = 0,
      CB_cumulative_no_k6 = 0,
      daily_log_for_scenario = [],
      simulation_active = True,
      breakthrough_occurred_flag = 0,
      halt_occurred_this_scenario_flag = 0,
      final_day_of_simulation = 0,
      day = 0\<rparr>"

text \<open>The halt test of lines 167 and 253.\<close>

definition halt_condition :: "static \<Rightarrow> pyfloat \<Rightarrow> real \<Rightarrow> bool" where
  "halt_condition st rt bt =
     (fle rt (Fin (H_calc st * bt + EPSILON)) \<or> flt rt (Fin EPSILON))"

text \<open>
  The values of one day that the branch of line 169 decides: what the day changes in
  the running state, and today's entries of the row.
\<close>

record day_result =
  res_rt_eod :: pyfloat
  res_bt_eod :: real
  res_G :: real
  res_CR :: real
  res_active :: bool
  res_halt_flag :: nat
  res_reinforcements :: real
  res_def_cas_reserves :: real
  res_km_gained :: real
  res_inv_cas_poa :: real
  res_def_cas_poa :: real

text \<open>Lines 169 to 174: the day on which the simulation stops without an advance.\<close>

definition halted_day :: "nat \<Rightarrow> sim_state \<Rightarrow> day_result" where
  "halted_day halt_condition_met_sod s =
     \<lparr>res_rt_eod = rt_current s,
      res_bt_eod = bt_current s,
      res_G = G_cumulative s,
      res_CR = CR_cumulative_on_axis s,
      res_active = False,
      res_halt_flag =
        (if halt_condition_met_sod = 1 \<and> breakthrough_occurred_flag s = 0 then 1
         else halt_occurred_this_scenario_flag s),
      res_reinforcements = 0,
      res_def_cas_reserves = 0,
      res_km_gained = 0,
      res_inv_cas_poa = 0,
      res_def_cas_poa = 0\<rparr>"

text \<open>Lines 176 to 203: a day of advance.\<close>

definition advance_day :: "inputs \<Rightarrow> static \<Rightarrow> nat \<Rightarrow> sim_state \<Rightarrow> day_result" where
  "advance_day inp st dy s =
     (let time_for_reserves_to_arrive_fully =
            (if Vr_in inp > EPSILON then Fin (wth st / Vr_in inp) else PInf);
          arriving = flt (Fin (real (dy - 1))) time_for_reserves_to_arrive_fully;
          reinforcements_today_survived =
            (if arriving then (B_in inp * fr_in inp * Vr_in inp * Ps_calc st) / wth st else 0);
          def_cas_reserves_today =
            (if arriving \<and> Vr_in inp > EPSILON
             then (let reserve_attempt_rate = (B_in inp * fr_in inp * Vr_in inp) / wth st;
                       c = reserve_attempt_rate * (1 - Ps_calc st)
                   in if c < 0 then 0 else c)
             else 0);
          bt_after_reinforcement = bt_current s + reinforcements_today_survived;
          km_gained_today = Va_in inp;
          inv0 = Ca_static_calc st * km_gained_today;
          inv_cas_poa_today = (if inv0 < 0 then 0 else inv0);
          def0 = b0_initial_calc st * km_gained_today;
          def_cas_poa_today = (if def0 < 0 then 0 else def0);
          rt0 = fsub (rt_current s) (delta_r_daily_rate st);
          rt_eod = (if flt rt0 (Fin 0) then Fin 0 else rt0)
      in \<lparr>res_rt_eod = rt_eod,
          res_bt_eod = bt_after_reinforcement,
          res_G = G_cumulative s + km_gained_today,
          res_CR = CR_cumulative_on_axis s + inv_cas_poa_today,
          res_active = simulation_active s,
          res_halt_flag = halt_occurred_this_scenario_flag s,
          res_reinforcements = reinforcements_today_survived,
          res_def_cas_reserves = def_cas_reserves_today,
          res_km_gained = km_gained_today,
          res_inv_cas_poa = inv_cas_poa_today,
          res_def_cas_poa = def_cas_poa_today\<rparr>)"

text \<open>
  Lines 158 to 244: the body of the loop for one day, from the start-of-day values to
  the row appended to the log.
\<close>

definition day_body :: "nat \<Rightarrow> inputs \<Rightarrow> static \<Rightarrow> nat \<Rightarrow> sim_state \<Rightarrow> sim_state" where
  "day_body scenario_id inp st dy s =
     (let rt_sod = rt_current s;
          bt_sod = bt_current s;
          halt_condition_met_sod = (if halt_condition st rt_sod bt_sod then 1 else 0 :: nat);
          r = (if halt_condition_met_sod = 1 \<or> (Va_in inp \<le> EPSILON \<and> dy > 0)
                  \<or> feq (delta_r_daily_rate st) PInf
               then halted_day halt_condition_met_sod s
               else advance_day inp st dy s);
          def_cas_total_today = res_def_cas_poa r + res_def_cas_reserves r;
          CB = CB_cumulative_no_k6 s + def_cas_total_today;
          current_breakthrough_status_eod = (if res_G r \<ge> d st - EPSILON then 1 else 0 :: nat);
          breakthrough = (current_breakthrough_status_eod = 1);
          active = (if breakthrough then False else res_active r);
          daily_row =
            \<lparr>Scenario_ID = scenario_id, Day = dy, row_inputs = inp, row_static = st,
             rt_SOD = rt_sod, bt_SOD = bt_sod,
             Reinforcements_Today_Survived = res_reinforcements r,
             Km_Gained_Today = res_km_gained r,
             Km_Gained_Cumulative = res_G r,
             Inv_Cas_POA_Today = res_inv_cas_poa r,
             Inv_Cas_POA_Cumulative_OnAxis = res_CR r,
             Def_Cas_POA_Today = res_def_cas_poa r,
             Def_Cas_Reserves_Today = res_def_cas_reserves r,
             Def_Cas_Total_Today = def_cas_total_today,
             Def_Cas_Cumulative_no_k6 = CB,
             rt_EOD = res_rt_eod r, bt_EOD = res_bt_eod r,
             Halt_Condition_Met_SOD = halt_condition_met_sod,
             Simulation_Continues_Next_Day = (if active then 1 else 0)\<rparr>
      in s\<lparr>rt_current := res_rt_eod r,
           bt_current := res_bt_eod r,
           G_cumulative := res_G r,
           CR_cumulative_on_axis := res_CR r,
           CB_cumulative_no_k6 := CB,
           daily_log_for_scenario := daily_log_for_scenario s @ [daily_row],
           simulation_active := active,
           breakthrough_occurred_flag :=
             (if breakthrough then 1 else breakthrough_occurred_flag s),
           halt_occurred_this_scenario_flag := (if breakthrough then 0 else res_halt_flag r)\<rparr>)"

text \<open>
  Lines 152 to 247: \<^verbatim>\<open>for day in range(1, MAX_SIMULATION_DAYS + 1)\<close>, started at
  \<open>dy = 1\<close>. The field \<open>day\<close> of the state is the loop variable, which the source
  reads again after the loop.
\<close>

function daily_loop :: "nat \<Rightarrow> inputs \<Rightarrow> static \<Rightarrow> nat \<Rightarrow> sim_state \<Rightarrow> sim_state" where
  "daily_loop scenario_id inp st dy s =
     (if dy > MAX_SIMULATION_DAYS then s
      else if \<not> simulation_active s
           then s\<lparr>day := dy, final_day_of_simulation := dy - 1\<rparr>
      else if \<not> simulation_active
                  (day_body scenario_id inp st dy (s\<lparr>day := dy, final_day_of_simulation := dy\<rparr>))
           then day_body scenario_id inp st dy (s\<lparr>day := dy, final_day_of_simulation := dy\<rparr>)
      else daily_loop scenario_id inp st (dy + 1)
             (day_body scenario_id inp st dy (s\<lparr>day := dy, final_day_of_simulation := dy\<rparr>)))"
  by pat_completeness auto
termination
  by (relation "measure (\<lambda>(scenario_id, inp, st, dy, s). MAX_SIMULATION_DAYS + 1 - dy)") auto

text \<open>Lines 249 to 254: the state after the loop, with the halt inferred at the day cap.\<close>

definition day_cap_reached :: "sim_state \<Rightarrow> bool" where
  "day_cap_reached s = (day s = MAX_SIMULATION_DAYS \<and> simulation_active s)"

definition after_loop :: "static \<Rightarrow> sim_state \<Rightarrow> sim_state" where
  "after_loop st s =
     (if day_cap_reached s
      then (let s1 = s\<lparr>final_day_of_simulation := MAX_SIMULATION_DAYS\<rparr>
            in if breakthrough_occurred_flag s1 = 0 \<and> halt_occurred_this_scenario_flag s1 = 0
               then (if halt_condition st (rt_current s1) (bt_current s1)
                     then s1\<lparr>halt_occurred_this_scenario_flag := 1\<rparr>
                     else s1)
               else s1)
      else s)"

text \<open>
  The summary of a scenario (lines 257 to 273); numbers again unformatted,
  \<open>fo_inputs\<close> for the copy of the inputs.
\<close>

record final_outcomes =
  fo_Scenario_ID :: nat
  fo_inputs :: inputs
  Final_Campaign_Duration_Days :: nat
  Final_Km_Gained_Cumulative :: real
  Final_Inv_Cas_POA_Cumulative_OnAxis :: real
  Final_Def_Cas_Cumulative_no_k6 :: real
  Final_Campaign_Inv_Cas_Total :: real
  Final_Campaign_Def_Cas_Total :: real
  Breakthrough_Occurred :: nat
  Halt_Occurred :: nat

definition make_final_outcomes :: "nat \<Rightarrow> inputs \<Rightarrow> sim_state \<Rightarrow> final_outcomes" where
  "make_final_outcomes scenario_id inp s =
     \<lparr>fo_Scenario_ID = scenario_id,
      fo_inputs = inp,
      Final_Campaign_Duration_Days = final_day_of_simulation s,
      Final_Km_Gained_Cumulative = G_cumulative s,
      Final_Inv_Cas_POA_Cumulative_OnAxis = CR_cumulative_on_axis s,
      Final_Def_Cas_Cumulative_no_k6 = CB_cumulative_no_k6 s,
      Final_Campaign_Inv_Cas_Total = CR_cumulative_on_axis s + k5_in inp,
      Final_Campaign_Def_Cas_Total = CB_cumulative_no_k6 s + k6_in inp,
      Breakthrough_Occurred = breakthrough_occurred_flag s,
      Halt_Occurred = halt_occurred_this_scenario_flag s\<rparr>"

text \<open>The state in which the function builds its summary.\<close>

definition final_state :: "nat \<Rightarrow> inputs \<Rightarrow> static \<Rightarrow> sim_state" where
  "final_state scenario_id inp st =
     after_loop st (daily_loop scenario_id inp st 1 (initial_state st))"

definition simulate_one_scenario :: "nat \<Rightarrow> inputs \<Rightarrow> py_error + (daily_row list \<times> final_outcomes)" where
  "simulate_one_scenario scenario_id inp =
     (case static_calculations inp of
        Inl e \<Rightarrow> Inl e
      | Inr st \<Rightarrow>
          (let s = final_state scenario_id inp st
           in Inr (daily_log_for_scenario s, make_final_outcomes scenario_id inp s)))"

text \<open>The default answers of the prompts in \<^verbatim>\<open>main\<close>.\<close>

definition default_inputs :: inputs where
  "default_inputs =
     \<lparr>R_in = 1250000, B_in = 1000000, YR_in = 1910, YB_in = 1910, d_in = 15,
      fr_in = 4 / 10, fe_in = 0, Vr_in = 100, Va_in = 45 / 10, wa_in = 25, wth_in = 500,
      k1_in = 25 / 10, k2_in = 1 / 100, k3_in = 4 / 10, k4_in = 5 / 10, k5_in = 200000,
      k6_in = 200000, k7_in = 5, k8_in = 1 / 10, k9_in = 1 / 100\<rparr>"

section \<open>Invariants of the day loop\<close>

text \<open>The cumulative counters are the sums of the daily entries of the log.\<close>

definition sums_inv :: "sim_state \<Rightarrow> bool" where
  "sums_inv s =
     (CR_cumulative_on_axis s = sum_list (map Inv_Cas_POA_Today (daily_log_for_scenario s)) \<and>
      CB_cumulative_no_k6 s = sum_list (map Def_Cas_Total_Today (daily_log_for_scenario s)) \<and>
      G_cumulative s = sum_list (map Km_Gained_Today (daily_log_for_scenario s)))"

text \<open>
  The attrition rate is usable on every day of advance: it is finite and not negative
  whenever the loop can reach the subtraction of line 197.
\<close>

definition delta_ok :: "inputs \<Rightarrow> static \<Rightarrow> bool" where
  "delta_ok inp st =
     (feq (delta_r_daily_rate st) PInf \<or> Va_in inp \<le> EPSILON \<or>
      (\<exists>x. 0 \<le> x \<and> delta_r_daily_rate st = Fin x))"

definition row_rt_ok :: "daily_row \<Rightarrow> bool" where
  "row_rt_ok r = (\<exists>a b. rt_SOD r = Fin a \<and> rt_EOD r = Fin b \<and> 0 \<le> b \<and> b \<le> a)"

definition rt_inv :: "sim_state \<Rightarrow> bool" where
  "rt_inv s =
     ((\<exists>x. 0 \<le> x \<and> rt_current s = Fin x) \<and>
      (\<forall>r \<in> set (daily_log_for_scenario s). row_rt_ok r))"

text \<open>Each row starts from the strengths with which the row before it ended.\<close>

fun chained :: "daily_row list \<Rightarrow> bool" where
  "chained (r1 # r2 # rs) =
     (rt_SOD r2 = rt_EOD r1 \<and> bt_SOD r2 = bt_EOD r1 \<and> chained (r2 # rs))"
| "chained _ = True"

definition chain_inv :: "sim_state \<Rightarrow> bool" where
  "chain_inv s =
     (chained (daily_log_for_scenario s) \<and>
      (daily_log_for_scenario s \<noteq> [] \<longrightarrow>
          rt_EOD (last (daily_log_for_scenario s)) = rt_current s \<and>
          bt_EOD (last (daily_log_for_scenario s)) = bt_current s))"

text \<open>The first row starts from the initial strengths.\<close>

definition first_inv :: "static \<Rightarrow> sim_state \<Rightarrow> bool" where
  "first_inv st s =
     (if daily_log_for_scenario s = []
      then rt_current s = rt_current (initial_state st) \<and>
           bt_current s = bt_current (initial_state st)
      else rt_SOD (hd (daily_log_for_scenario s)) = rt_current (initial_state st) \<and>
           bt_SOD (hd (daily_log_for_scenario s)) = bt_current (initial_state st))"

text \<open>The cumulative distance of the rows never decreases and never exceeds the running value.\<close>

definition G_inv :: "sim_state \<Rightarrow> bool" where
  "G_inv s =
     (sorted (map Km_Gained_Cumulative (daily_log_for_scenario s)) \<and>
      (\<forall>r \<in> set (daily_log_for_scenario s).
          0 \<le> Km_Gained_Cumulative r \<and> Km_Gained_Cumulative r \<le> G_cumulative s) \<and>
      0 \<le> G_cumulative s)"

text \<open>The defender strength is not negative, in the state and in every row.\<close>

definition bt_inv :: "sim_state \<Rightarrow> bool" where
  "bt_inv s =
     (0 \<le> bt_current s \<and>
      (\<forall>r \<in> set (daily_log_for_scenario s). 0 \<le> bt_SOD r \<and> 0 \<le> bt_EOD r))"

text \<open>
  After the loop from day \<open>dy\<close>: one row per day, the duration is the last day, and only an
  exhausted range leaves the simulation active.
\<close>

definition days_ok :: "nat \<Rightarrow> sim_state \<Rightarrow> bool" where
  "days_ok dy s =
     (length (daily_log_for_scenario s) = day s \<and>
      final_day_of_simulation s = day s \<and>
      dy \<le> day s \<and> day s \<le> MAX_SIMULATION_DAYS \<and>
      (simulation_active s \<longrightarrow> day s = MAX_SIMULATION_DAYS))"

text \<open>
  The flags against the log: while the simulation is active no flag is set and no row has
  reached the depth; once it has stopped, the last row decides the flags.
\<close>

definition flags_inv :: "inputs \<Rightarrow> static \<Rightarrow> sim_state \<Rightarrow> bool" where
  "flags_inv inp st s =
     (if simulation_active s
      then breakthrough_occurred_flag s = 0 \<and> halt_occurred_this_scenario_flag s = 0 \<and>
           (\<forall>r \<in> set (daily_log_for_scenario s). Km_Gained_Cumulative r < d st - EPSILON)
      else daily_log_for_scenario s \<noteq> [] \<and>
           (\<forall>r \<in> set (butlast (daily_log_for_scenario s)).
               Km_Gained_Cumulative r < d st - EPSILON) \<and>
           (if d st - EPSILON \<le> Km_Gained_Cumulative (last (daily_log_for_scenario s))
            then breakthrough_occurred_flag s = 1 \<and> halt_occurred_this_scenario_flag s = 0
            else breakthrough_occurred_flag s = 0 \<and>
                 halt_occurred_this_scenario_flag s =
                   Halt_Condition_Met_SOD (last (daily_log_for_scenario s)) \<and>
                 (Halt_Condition_Met_SOD (last (daily_log_for_scenario s)) = 1 \<or>
                  Halt_Condition_Met_SOD (last (daily_log_for_scenario s)) = 0 \<and>
                  (Va_in inp \<le> EPSILON \<or> delta_r_daily_rate st = PInf))))"

text \<open>The last row carries the running distance, the static values and the continuation flag.\<close>

definition last_inv :: "static \<Rightarrow> sim_state \<Rightarrow> bool" where
  "last_inv st s =
     (daily_log_for_scenario s = [] \<or>
      Km_Gained_Cumulative (last (daily_log_for_scenario s)) = G_cumulative s \<and>
      row_static (last (daily_log_for_scenario s)) = st \<and>
      Simulation_Continues_Next_Day (last (daily_log_for_scenario s)) =
        (if simulation_active s then 1 else 0))"

text \<open>
  The day cap was reached with the simulation still running (the test of line 249), read
  from what the function returns: the duration is the cap and the last row says that the
  simulation continues.
\<close>

definition reached_day_cap :: "daily_row list \<Rightarrow> final_outcomes \<Rightarrow> bool" where
  "reached_day_cap rows fo =
     (Final_Campaign_Duration_Days fo = MAX_SIMULATION_DAYS \<and>
      Simulation_Continues_Next_Day (last rows) = 1)"

text \<open>The distance grows by at most the assault velocity a day.\<close>

definition Gbound_inv :: "inputs \<Rightarrow> sim_state \<Rightarrow> bool" where
  "Gbound_inv inp s =
     (G_cumulative s \<le> real (length (daily_log_for_scenario s)) * max 0 (Va_in inp))"

section \<open>Basic facts\<close>

lemma EPSILON_pos: "0 < EPSILON"
  by (simp add: EPSILON_def)

lemma Ps_of_range: "0 \<le> Ps_of inp \<and> Ps_of inp \<le> 1"
  by (simp add: Ps_of_def Let_def split: sum.splits)

lemma Ca_of_nonneg: "0 \<le> Ca_of inp"
  by (simp add: Ca_of_def Let_def)

lemma d_norm_pos: "0 < d_norm inp"
  using EPSILON_pos by (simp add: d_norm_def)

lemma wth_norm_pos: "0 < wth_norm inp"
  using EPSILON_pos by (simp add: wth_norm_def)

lemma rho1_of_cases: "rho1_of inp dn = PInf \<or> (\<exists>x. rho1_of inp dn = Fin x)"
  by (simp add: rho1_of_def Let_def split: option.splits)

lemma delta_r_of_cases:
  "delta_r_of inp rho1 = PInf \<or> (\<exists>x. 0 \<le> x \<and> delta_r_of inp rho1 = Fin x) \<or>
   (delta_r_of inp rho1 = NaN \<and> (Va_in inp = 0 \<or> rho1 = NaN))"
  by (cases rho1) (auto simp: delta_r_of_def Let_def inf_times_def)

lemma static_sel:
  assumes "static_calculations inp = Inr st"
  shows "wth st = wth_norm inp" "d st = d_norm inp" "Ps_calc st = Ps_of inp"
    "H_calc st = H_of inp" "rho2_calc st = rho2_of inp" "r0_initial_calc st = r0_of inp"
    "b0_initial_calc st = b0_of inp" "Ca_static_calc st = Ca_of inp"
    "\<exists>dn. rho1_calc st = rho1_of inp dn \<and>
          delta_r_daily_rate st = delta_r_of inp (rho1_of inp dn)"
  using assms by (auto simp: static_calculations_def split: sum.splits)

lemma static_delta_ok:
  assumes "static_calculations inp = Inr st"
  shows "delta_ok inp st"
proof -
  from static_sel(9)[OF assms] obtain dn where
    dn: "delta_r_daily_rate st = delta_r_of inp (rho1_of inp dn)" by blast
  have "rho1_of inp dn \<noteq> NaN" using rho1_of_cases[of inp dn] by auto
  then show ?thesis
    using delta_r_of_cases[of inp "rho1_of inp dn"] EPSILON_pos
    by (auto simp: delta_ok_def dn)
qed

text \<open>The function returns unless the power of line 116 raises.\<close>

lemma static_calculations_returns:
  assumes "0 < T_rho_of inp \<or> 0 \<le> k4_in inp"
  shows "\<exists>st. static_calculations inp = Inr st"
  using assms
  by (auto simp: static_calculations_def rho1_denominator_of_def math_pow_def
           split: sum.splits)

lemma default_T_rho: "0 < T_rho_of default_inputs"
  by (simp add: T_rho_of_def TR_of_def TB_of_def default_inputs_def EPSILON_def)

lemma simulate_Inr:
  assumes "simulate_one_scenario sid inp = Inr (rows, fo)"
  obtains st where "static_calculations inp = Inr st"
    and "rows = daily_log_for_scenario (final_state sid inp st)"
    and "fo = make_final_outcomes sid inp (final_state sid inp st)"
  using assms by (auto simp: simulate_one_scenario_def Let_def split: sum.splits)

lemma simulate_returns:
  assumes "static_calculations inp = Inr st"
  shows "simulate_one_scenario sid inp =
           Inr (daily_log_for_scenario (final_state sid inp st),
                make_final_outcomes sid inp (final_state sid inp st))"
  using assms by (simp add: simulate_one_scenario_def Let_def)

section \<open>The loop preserves what its body preserves\<close>

declare daily_loop.simps [simp del]

lemma daily_loop_invariant:
  assumes "P s" and "0 < dy"
    and upd: "\<And>s a b. P s \<Longrightarrow> P (s\<lparr>day := a, final_day_of_simulation := b\<rparr>)"
    and body: "\<And>s dy. P s \<Longrightarrow> simulation_active s \<Longrightarrow> 0 < dy \<Longrightarrow>
                 P (day_body sid inp st dy s)"
  shows "P (daily_loop sid inp st dy s)"
  using assms(1,2)
proof (induction n \<equiv> "MAX_SIMULATION_DAYS + 1 - dy" arbitrary: dy s)
  case 0
  then show ?case by (simp add: daily_loop.simps)
next
  case (Suc n)
  let ?s1 = "s\<lparr>day := dy, final_day_of_simulation := dy\<rparr>"
  from Suc.hyps(2) have le: "\<not> dy > MAX_SIMULATION_DAYS" by simp
  show ?case
  proof (cases "simulation_active s")
    case False
    then show ?thesis using le Suc.prems upd by (simp add: daily_loop.simps)
  next
    case True
    have P1: "P ?s1" using Suc.prems upd by blast
    have act: "simulation_active ?s1" using True by simp
    have P2: "P (day_body sid inp st dy ?s1)"
      by (rule body[OF P1 act Suc.prems(2)])
    show ?thesis
    proof (cases "simulation_active (day_body sid inp st dy ?s1)")
      case False
      then show ?thesis using le True P2 by (simp add: daily_loop.simps)
    next
      case act2: True
      have n: "n = MAX_SIMULATION_DAYS + 1 - (dy + 1)" using Suc.hyps(2) by simp
      have "P (daily_loop sid inp st (dy + 1) (day_body sid inp st dy ?s1))"
        by (rule Suc.hyps(1)[OF n P2]) simp
      then show ?thesis using le True act2 by (subst daily_loop.simps) simp
    qed
  qed
qed

section \<open>One day, row by row\<close>

lemma day_body_simple [simp]:
  "day (day_body sid inp st dy s) = day s"
  "final_day_of_simulation (day_body sid inp st dy s) = final_day_of_simulation s"
  "length (daily_log_for_scenario (day_body sid inp st dy s)) =
     Suc (length (daily_log_for_scenario s))"
  by (simp_all add: day_body_def Let_def)

lemma day_body_row:
  "\<exists>r. daily_log_for_scenario (day_body sid inp st dy s) = daily_log_for_scenario s @ [r] \<and>
       Day r = dy \<and> row_inputs r = inp \<and> row_static r = st \<and>
       rt_SOD r = rt_current s \<and> bt_SOD r = bt_current s \<and>
       rt_EOD r = rt_current (day_body sid inp st dy s) \<and>
       bt_EOD r = bt_current (day_body sid inp st dy s) \<and>
       Km_Gained_Cumulative r = G_cumulative (day_body sid inp st dy s) \<and>
       Halt_Condition_Met_SOD r =
         (if halt_condition st (rt_current s) (bt_current s) then 1 else 0) \<and>
       Simulation_Continues_Next_Day r =
         (if simulation_active (day_body sid inp st dy s) then 1 else 0)"
  by (simp add: day_body_def Let_def)

lemma chained_snoc:
  "chained (L @ [r]) \<longleftrightarrow>
     chained L \<and> (L \<noteq> [] \<longrightarrow> rt_SOD r = rt_EOD (last L) \<and> bt_SOD r = bt_EOD (last L))"
  by (induction L rule: chained.induct) auto

lemma chained_nth:
  "chained L \<Longrightarrow> Suc i < length L \<Longrightarrow>
     rt_SOD (L ! Suc i) = rt_EOD (L ! i) \<and> bt_SOD (L ! Suc i) = bt_EOD (L ! i)"
proof (induction L arbitrary: i rule: chained.induct)
  case (1 r1 r2 rs)
  then show ?case by (cases i) auto
qed auto

lemma day_body_chain:
  assumes "chain_inv s"
  shows "chain_inv (day_body sid inp st dy s)"
proof -
  from day_body_row[of sid inp st dy s] obtain r where
    r: "daily_log_for_scenario (day_body sid inp st dy s) = daily_log_for_scenario s @ [r]"
       "rt_SOD r = rt_current s" "bt_SOD r = bt_current s"
       "rt_EOD r = rt_current (day_body sid inp st dy s)"
       "bt_EOD r = bt_current (day_body sid inp st dy s)"
    by blast
  show ?thesis using assms
    by (simp add: chain_inv_def r chained_snoc)
qed

lemma day_body_first:
  assumes "first_inv st s"
  shows "first_inv st (day_body sid inp st dy s)"
proof -
  from day_body_row[of sid inp st dy s] obtain r where
    r: "daily_log_for_scenario (day_body sid inp st dy s) = daily_log_for_scenario s @ [r]"
       "rt_SOD r = rt_current s" "bt_SOD r = bt_current s"
    by blast
  show ?thesis
  proof (cases "daily_log_for_scenario s = []")
    case True
    then show ?thesis using assms by (simp add: first_inv_def r)
  next
    case False
    then show ?thesis using assms by (simp add: first_inv_def r)
  qed
qed

lemma day_body_G_mono:
  assumes "0 < dy"
  shows "G_cumulative s \<le> G_cumulative (day_body sid inp st dy s)"
proof (cases "halt_condition st (rt_current s) (bt_current s) \<or> Va_in inp \<le> EPSILON
                 \<or> feq (delta_r_daily_rate st) PInf")
  case True
  then show ?thesis using assms by (auto simp: day_body_def Let_def halted_day_def)
next
  case False
  then have "0 < Va_in inp" using EPSILON_pos by auto
  then show ?thesis using False by (simp add: day_body_def Let_def advance_day_def)
qed

lemma day_body_G:
  assumes "G_inv s" "0 < dy"
  shows "G_inv (day_body sid inp st dy s)"
proof -
  from day_body_row[of sid inp st dy s] obtain r where
    r: "daily_log_for_scenario (day_body sid inp st dy s) = daily_log_for_scenario s @ [r]"
       "Km_Gained_Cumulative r = G_cumulative (day_body sid inp st dy s)"
    by blast
  have m: "G_cumulative s \<le> G_cumulative (day_body sid inp st dy s)"
    by (rule day_body_G_mono[OF assms(2)])
  show ?thesis using assms(1) m
    by (auto simp: G_inv_def r sorted_append intro: order_trans)
qed

lemma day_body_bt_nonneg:
  assumes "0 \<le> B_in inp * fr_in inp * Vr_in inp * Ps_calc st" "0 < wth st" "0 \<le> bt_current s"
  shows "0 \<le> bt_current (day_body sid inp st dy s)"
proof -
  have "0 \<le> (B_in inp * fr_in inp * Vr_in inp * Ps_calc st) / wth st"
    using assms(1,2) by simp
  then show ?thesis using assms(3)
    by (simp add: day_body_def Let_def advance_day_def halted_day_def)
qed

lemma day_body_bt:
  assumes "0 \<le> B_in inp * fr_in inp * Vr_in inp * Ps_calc st" "0 < wth st" "bt_inv s"
  shows "bt_inv (day_body sid inp st dy s)"
proof -
  from day_body_row[of sid inp st dy s] obtain r where
    r: "daily_log_for_scenario (day_body sid inp st dy s) = daily_log_for_scenario s @ [r]"
       "bt_SOD r = bt_current s" "bt_EOD r = bt_current (day_body sid inp st dy s)"
    by blast
  have "0 \<le> bt_current (day_body sid inp st dy s)"
    using assms by (intro day_body_bt_nonneg) (simp_all add: bt_inv_def)
  then show ?thesis using assms(3) by (auto simp: bt_inv_def r)
qed

lemma daily_loop_step:
  assumes "dy \<le> MAX_SIMULATION_DAYS" "simulation_active s"
  shows "daily_loop sid inp st dy s =
     (if \<not> simulation_active
            (day_body sid inp st dy (s\<lparr>day := dy, final_day_of_simulation := dy\<rparr>))
         \<or> dy = MAX_SIMULATION_DAYS
      then day_body sid inp st dy (s\<lparr>day := dy, final_day_of_simulation := dy\<rparr>)
      else daily_loop sid inp st (dy + 1)
             (day_body sid inp st dy (s\<lparr>day := dy, final_day_of_simulation := dy\<rparr>)))"
proof (cases "dy = MAX_SIMULATION_DAYS")
  case True
  have "daily_loop sid inp st (dy + 1)
          (day_body sid inp st dy (s\<lparr>day := dy, final_day_of_simulation := dy\<rparr>)) =
        day_body sid inp st dy (s\<lparr>day := dy, final_day_of_simulation := dy\<rparr>)"
    using True by (subst daily_loop.simps) simp
  then show ?thesis using assms True by (subst daily_loop.simps) simp
next
  case False
  then show ?thesis using assms by (subst daily_loop.simps) simp
qed

lemma loop_days:
  assumes "simulation_active s" "Suc (length (daily_log_for_scenario s)) = dy"
    "dy \<le> MAX_SIMULATION_DAYS"
  shows "days_ok dy (daily_loop sid inp st dy s)"
  using assms
proof (induction n \<equiv> "MAX_SIMULATION_DAYS - dy" arbitrary: dy s)
  case 0
  then have dy: "dy = MAX_SIMULATION_DAYS" by simp
  show ?case using 0 
    by (simp add: daily_loop_step dy days_ok_def)
next
  case (Suc n)
  let ?s2 = "day_body sid inp st dy (s\<lparr>day := dy, final_day_of_simulation := dy\<rparr>)"
  from Suc.hyps(2) have ne: "dy \<noteq> MAX_SIMULATION_DAYS" by simp
  show ?case
  proof (cases "simulation_active ?s2")
    case False
    then show ?thesis using Suc.prems
      by (simp add: daily_loop_step days_ok_def)
  next
    case True
    have n: "n = MAX_SIMULATION_DAYS - (dy + 1)" using Suc.hyps(2) by simp
    have len: "Suc (length (daily_log_for_scenario ?s2)) = dy + 1" using Suc.prems by simp
    have le: "dy + 1 \<le> MAX_SIMULATION_DAYS" using Suc.hyps(2) by simp
    have eq: "daily_loop sid inp st dy s = daily_loop sid inp st (dy + 1) ?s2"
      using True Suc.prems ne by (simp add: daily_loop_step)
    show ?thesis using Suc.hyps(1)[OF n True len le] unfolding eq
      by (simp add: days_ok_def)
  qed
qed

lemma after_loop_simple [simp]:
  "daily_log_for_scenario (after_loop st s) = daily_log_for_scenario s"
  "rt_current (after_loop st s) = rt_current s"
  "bt_current (after_loop st s) = bt_current s"
  "G_cumulative (after_loop st s) = G_cumulative s"
  "CR_cumulative_on_axis (after_loop st s) = CR_cumulative_on_axis s"
  "CB_cumulative_no_k6 (after_loop st s) = CB_cumulative_no_k6 s"
  "day (after_loop st s) = day s"
  "simulation_active (after_loop st s) = simulation_active s"
  "breakthrough_occurred_flag (after_loop st s) = breakthrough_occurred_flag s"
  by (simp_all add: after_loop_def Let_def)

lemma after_loop_final_day:
  "day_cap_reached s \<longrightarrow> final_day_of_simulation s = MAX_SIMULATION_DAYS \<Longrightarrow>
   final_day_of_simulation (after_loop st s) = final_day_of_simulation s"
  by (simp add: after_loop_def Let_def)

lemma final_state_days:
  "days_ok 1 (final_state sid inp st)"
proof -
  have d: "days_ok 1 (daily_loop sid inp st 1 (initial_state st))"
    by (rule loop_days) (simp_all add: initial_state_def MAX_SIMULATION_DAYS_def)
  then have "final_day_of_simulation (after_loop st (daily_loop sid inp st 1 (initial_state st)))
      = final_day_of_simulation (daily_loop sid inp st 1 (initial_state st))"
    by (intro after_loop_final_day) (simp add: days_ok_def day_cap_reached_def)
  then show ?thesis using d by (simp add: final_state_def days_ok_def)
qed

section \<open>Casualty totals\<close>

lemma day_body_sums: "sums_inv s \<Longrightarrow> sums_inv (day_body sid inp st dy s)"
  by (simp add: sums_inv_def day_body_def Let_def halted_day_def advance_day_def)

lemma loop_sums:
  assumes "sums_inv s" "0 < dy"
  shows "sums_inv (daily_loop sid inp st dy s)"
proof (rule daily_loop_invariant[where P = sums_inv, OF assms])
  show "\<And>s a b. sums_inv s \<Longrightarrow> sums_inv (s\<lparr>day := a, final_day_of_simulation := b\<rparr>)"
    by (simp add: sums_inv_def)
  show "\<And>s dy. sums_inv s \<Longrightarrow> simulation_active s \<Longrightarrow> 0 < dy \<Longrightarrow>
          sums_inv (day_body sid inp st dy s)"
    by (rule day_body_sums)
qed

lemma after_loop_sums: "sums_inv s \<Longrightarrow> sums_inv (after_loop st s)"
  by (simp add: after_loop_def sums_inv_def Let_def)

lemma final_state_sums: "sums_inv (final_state sid inp st)"
  unfolding final_state_def
  by (rule after_loop_sums, rule loop_sums) (simp_all add: sums_inv_def initial_state_def)

text \<open>
  C7. The final total casualties of each side are the cumulative counter of that side
  plus the off-axis constant (k5 for the attacker, k6 for the defender). The counters
  are the sums of the daily figures of the log, in which the constants do not occur: a
  constant is added once, when the summary is built, and not once per day.
\<close>

theorem final_totals_add_constant_once:
  assumes "simulate_one_scenario sid inp = Inr (rows, fo)"
  shows "Final_Campaign_Inv_Cas_Total fo = Final_Inv_Cas_POA_Cumulative_OnAxis fo + k5_in inp \<and>
         Final_Campaign_Def_Cas_Total fo = Final_Def_Cas_Cumulative_no_k6 fo + k6_in inp \<and>
         Final_Campaign_Inv_Cas_Total fo = sum_list (map Inv_Cas_POA_Today rows) + k5_in inp \<and>
         Final_Campaign_Def_Cas_Total fo = sum_list (map Def_Cas_Total_Today rows) + k6_in inp"
proof -
  from assms obtain st where
    rows: "rows = daily_log_for_scenario (final_state sid inp st)" and
    fo: "fo = make_final_outcomes sid inp (final_state sid inp st)"
    by (rule simulate_Inr)
  show ?thesis
    using final_state_sums[of sid inp st]
    by (simp add: rows fo make_final_outcomes_def sums_inv_def)
qed

theorem final_totals_add_constant_once_witness:
  "\<not> isl (simulate_one_scenario 1 default_inputs) \<and>
   Final_Campaign_Inv_Cas_Total (snd (projr (simulate_one_scenario 1 default_inputs))) =
     sum_list (map Inv_Cas_POA_Today (fst (projr (simulate_one_scenario 1 default_inputs))))
       + 200000 \<and>
   Final_Campaign_Def_Cas_Total (snd (projr (simulate_one_scenario 1 default_inputs))) =
     sum_list (map Def_Cas_Total_Today (fst (projr (simulate_one_scenario 1 default_inputs))))
       + 200000"
proof -
  from static_calculations_returns[of default_inputs] default_T_rho
  obtain st where "static_calculations default_inputs = Inr st" by blast
  then have r: "simulate_one_scenario 1 default_inputs =
      Inr (daily_log_for_scenario (final_state 1 default_inputs st),
           make_final_outcomes 1 default_inputs (final_state 1 default_inputs st))"
    by (rule simulate_returns)
  have k: "k5_in default_inputs = 200000" "k6_in default_inputs = 200000"
    by (simp_all add: default_inputs_def)
  show ?thesis
    using final_totals_add_constant_once[OF r] by (simp add: r k del: One_nat_def)
qed

section \<open>Strengths and distance over the days\<close>

lemma day_body_rt:
  assumes "delta_ok inp st" "rt_inv s" "0 < dy"
  shows "rt_inv (day_body sid inp st dy s)"
proof -
  from assms(2) obtain x where x: "0 \<le> x" "rt_current s = Fin x"
    and rows: "\<forall>r \<in> set (daily_log_for_scenario s). row_rt_ok r"
    by (auto simp: rt_inv_def)
  show ?thesis
  proof (cases "halt_condition st (rt_current s) (bt_current s) \<or> Va_in inp \<le> EPSILON
                 \<or> feq (delta_r_daily_rate st) PInf")
    case True
    then show ?thesis using x rows assms(3)
      by (auto simp: rt_inv_def day_body_def Let_def halted_day_def row_rt_ok_def)
  next
    case False
    with assms(1) obtain y where y: "0 \<le> y" "delta_r_daily_rate st = Fin y"
      by (auto simp: delta_ok_def)
    show ?thesis using False x y rows assms(3)
      by (auto simp: rt_inv_def day_body_def Let_def advance_day_def row_rt_ok_def fsub_def)
  qed
qed

lemma final_state_rt:
  assumes "static_calculations inp = Inr st"
  shows "rt_inv (final_state sid inp st)"
proof -
  have ok: "delta_ok inp st" by (rule static_delta_ok[OF assms])
  have i: "rt_inv (initial_state st)" by (simp add: rt_inv_def initial_state_def)
  have "rt_inv (daily_loop sid inp st 1 (initial_state st))"
  proof (rule daily_loop_invariant[where P = rt_inv, OF i])
    show "\<And>s a b. rt_inv s \<Longrightarrow> rt_inv (s\<lparr>day := a, final_day_of_simulation := b\<rparr>)"
      by (simp add: rt_inv_def)
    show "\<And>s dy. rt_inv s \<Longrightarrow> simulation_active s \<Longrightarrow> 0 < dy \<Longrightarrow>
            rt_inv (day_body sid inp st dy s)"
      by (rule day_body_rt[OF ok])
  qed simp
  then show ?thesis by (simp add: final_state_def rt_inv_def)
qed

lemma final_state_chain: "chain_inv (final_state sid inp st)"
proof -
  have i: "chain_inv (initial_state st)" by (simp add: chain_inv_def initial_state_def)
  have "chain_inv (daily_loop sid inp st 1 (initial_state st))"
  proof (rule daily_loop_invariant[where P = chain_inv, OF i])
    show "\<And>s a b. chain_inv s \<Longrightarrow> chain_inv (s\<lparr>day := a, final_day_of_simulation := b\<rparr>)"
      by (simp add: chain_inv_def)
    show "\<And>s dy. chain_inv s \<Longrightarrow> simulation_active s \<Longrightarrow> 0 < dy \<Longrightarrow>
            chain_inv (day_body sid inp st dy s)"
      by (rule day_body_chain)
  qed simp
  then show ?thesis by (simp add: final_state_def chain_inv_def)
qed

lemma final_state_first: "first_inv st (final_state sid inp st)"
proof -
  have i: "first_inv st (initial_state st)" by (simp add: first_inv_def initial_state_def)
  have "first_inv st (daily_loop sid inp st 1 (initial_state st))"
  proof (rule daily_loop_invariant[where P = "first_inv st", OF i])
    show "\<And>s a b. first_inv st s \<Longrightarrow>
            first_inv st (s\<lparr>day := a, final_day_of_simulation := b\<rparr>)"
      by (simp add: first_inv_def)
    show "\<And>s dy. first_inv st s \<Longrightarrow> simulation_active s \<Longrightarrow> 0 < dy \<Longrightarrow>
            first_inv st (day_body sid inp st dy s)"
      by (rule day_body_first)
  qed simp
  then show ?thesis by (simp add: final_state_def first_inv_def)
qed

lemma final_state_G: "G_inv (final_state sid inp st)"
proof -
  have i: "G_inv (initial_state st)" by (simp add: G_inv_def initial_state_def)
  have "G_inv (daily_loop sid inp st 1 (initial_state st))"
  proof (rule daily_loop_invariant[where P = G_inv, OF i])
    show "\<And>s a b. G_inv s \<Longrightarrow> G_inv (s\<lparr>day := a, final_day_of_simulation := b\<rparr>)"
      by (simp add: G_inv_def)
    show "\<And>s dy. G_inv s \<Longrightarrow> simulation_active s \<Longrightarrow> 0 < dy \<Longrightarrow>
            G_inv (day_body sid inp st dy s)"
      by (rule day_body_G)
  qed simp
  then show ?thesis by (simp add: final_state_def G_inv_def)
qed

lemma final_state_bt:
  assumes "static_calculations inp = Inr st"
    and "0 \<le> B_in inp * (1 - fr_in inp) * wa_in inp"
    and "0 \<le> B_in inp * fr_in inp * Vr_in inp"
  shows "bt_inv (final_state sid inp st)"
proof -
  have ps: "0 \<le> B_in inp * fr_in inp * Vr_in inp * Ps_calc st"
    using assms(3) Ps_of_range[of inp] by (simp add: static_sel(3)[OF assms(1)])
  have w: "0 < wth st" using wth_norm_pos[of inp] by (simp add: static_sel(1)[OF assms(1)])
  have "0 \<le> b0_of inp"
    using assms(2) wth_norm_pos[of inp] d_norm_pos[of inp] by (simp add: b0_of_def)
  then have i: "bt_inv (initial_state st)"
    by (simp add: bt_inv_def initial_state_def static_sel(7)[OF assms(1)])
  have "bt_inv (daily_loop sid inp st 1 (initial_state st))"
  proof (rule daily_loop_invariant[where P = bt_inv, OF i])
    show "\<And>s a b. bt_inv s \<Longrightarrow> bt_inv (s\<lparr>day := a, final_day_of_simulation := b\<rparr>)"
      by (simp add: bt_inv_def)
    show "\<And>s dy. bt_inv s \<Longrightarrow> simulation_active s \<Longrightarrow> 0 < dy \<Longrightarrow>
            bt_inv (day_body sid inp st dy s)"
      by (rule day_body_bt[OF ps w])
  qed simp
  then show ?thesis by (simp add: final_state_def bt_inv_def)
qed

lemma final_state_rows_nonempty: "daily_log_for_scenario (final_state sid inp st) \<noteq> []"
  using final_state_days[of sid inp st] by (auto simp: days_ok_def)

lemma default_returns: "\<exists>st. static_calculations default_inputs = Inr st"
  using static_calculations_returns[of default_inputs] default_T_rho by blast

lemma default_r0: "r0_of default_inputs = 1022000"
  by (simp add: r0_of_def rho2_of_def wth_norm_def default_inputs_def EPSILON_def)

lemma default_b0: "b0_of default_inputs = 2000"
  by (simp add: b0_of_def wth_norm_def d_norm_def default_inputs_def EPSILON_def)

text \<open>
  C10. On every simulated day the end-of-day attacker strength is at most the
  start-of-day strength, and each day starts from the strength with which the day before
  ended: the attacker strength never increases in the course of a scenario.
\<close>

theorem attacker_strength_non_increasing:
  assumes "simulate_one_scenario sid inp = Inr (rows, fo)"
  shows "(\<forall>r \<in> set rows. fle (rt_EOD r) (rt_SOD r)) \<and>
         (\<forall>i. Suc i < length rows \<longrightarrow> rt_SOD (rows ! Suc i) = rt_EOD (rows ! i))"
proof -
  from assms obtain st where
    st: "static_calculations inp = Inr st" and
    rows: "rows = daily_log_for_scenario (final_state sid inp st)"
    by (rule simulate_Inr)
  have "\<forall>r \<in> set rows. fle (rt_EOD r) (rt_SOD r)"
    using final_state_rt[OF st, of sid] by (auto simp: rt_inv_def rows row_rt_ok_def)
  moreover have "\<forall>i. Suc i < length rows \<longrightarrow> rt_SOD (rows ! Suc i) = rt_EOD (rows ! i)"
    using final_state_chain[of sid inp st] chained_nth[of rows]
    by (simp add: chain_inv_def rows)
  ultimately show ?thesis by blast
qed

theorem attacker_strength_non_increasing_witness:
  "\<not> isl (simulate_one_scenario 1 default_inputs) \<and>
   fst (projr (simulate_one_scenario 1 default_inputs)) \<noteq> [] \<and>
   rt_SOD (hd (fst (projr (simulate_one_scenario 1 default_inputs)))) = Fin 1022000 \<and>
   list_all (\<lambda>r. fle (rt_EOD r) (rt_SOD r))
     (fst (projr (simulate_one_scenario 1 default_inputs)))"
proof -
  from default_returns obtain st where st: "static_calculations default_inputs = Inr st" ..
  let ?rows = "daily_log_for_scenario (final_state 1 default_inputs st)"
  have r: "simulate_one_scenario 1 default_inputs =
      Inr (?rows, make_final_outcomes 1 default_inputs (final_state 1 default_inputs st))"
    by (rule simulate_returns[OF st])
  have ne: "?rows \<noteq> []" by (rule final_state_rows_nonempty)
  have "rt_SOD (hd ?rows) = rt_current (initial_state st)"
    using final_state_first[of st 1 default_inputs] ne by (simp add: first_inv_def)
  then have hd: "rt_SOD (hd ?rows) = Fin 1022000"
    by (simp add: initial_state_def static_sel(6)[OF st] default_r0)
  have "list_all (\<lambda>r. fle (rt_EOD r) (rt_SOD r)) ?rows"
    using attacker_strength_non_increasing[OF r] by (simp add: list_all_iff)
  then show ?thesis using ne hd by (simp add: r del: One_nat_def)
qed

text \<open>
  C3, as the code has it. The cumulative distance never decreases from one day to the
  next and is never negative; the attacker strength is a finite number that is never
  negative, at the start and at the end of every day, the first day starting from the
  clamped initial strength. The defender strength starts from b0 and is not clamped:
  it is never negative provided the inputs make b0 and the daily reinforcement
  non-negative, that is, \<open>B (1 - fr) wa \<ge> 0\<close> and \<open>B fr Vr \<ge> 0\<close>.
\<close>

theorem distance_monotone_strengths_nonnegative:
  assumes "simulate_one_scenario sid inp = Inr (rows, fo)"
  shows "sorted (map Km_Gained_Cumulative rows) \<and>
         (\<forall>r \<in> set rows. 0 \<le> Km_Gained_Cumulative r) \<and>
         (\<forall>r \<in> set rows. \<exists>a b. rt_SOD r = Fin a \<and> 0 \<le> a \<and> rt_EOD r = Fin b \<and> 0 \<le> b) \<and>
         rows \<noteq> [] \<and>
         rt_SOD (hd rows) = Fin (max 0 (r0_of inp)) \<and>
         bt_SOD (hd rows) = b0_of inp \<and>
         (0 \<le> B_in inp * (1 - fr_in inp) * wa_in inp \<and> 0 \<le> B_in inp * fr_in inp * Vr_in inp
            \<longrightarrow> (\<forall>r \<in> set rows. 0 \<le> bt_SOD r \<and> 0 \<le> bt_EOD r))"
proof -
  from assms obtain st where
    st: "static_calculations inp = Inr st" and
    rows: "rows = daily_log_for_scenario (final_state sid inp st)"
    by (rule simulate_Inr)
  have g: "sorted (map Km_Gained_Cumulative rows) \<and>
           (\<forall>r \<in> set rows. 0 \<le> Km_Gained_Cumulative r)"
    using final_state_G[of sid inp st] by (simp add: G_inv_def rows)
  have rt: "\<forall>r \<in> set rows. \<exists>a b. rt_SOD r = Fin a \<and> 0 \<le> a \<and> rt_EOD r = Fin b \<and> 0 \<le> b"
    using final_state_rt[OF st, of sid] by (fastforce simp: rt_inv_def rows row_rt_ok_def)
  have ne: "rows \<noteq> []" unfolding rows by (rule final_state_rows_nonempty)
  have hd: "rt_SOD (hd rows) = Fin (max 0 (r0_of inp)) \<and> bt_SOD (hd rows) = b0_of inp"
    using final_state_first[of st sid inp] ne
    by (simp add: first_inv_def rows initial_state_def static_sel(6,7)[OF st] max_def)
  have bt: "0 \<le> B_in inp * (1 - fr_in inp) * wa_in inp \<and> 0 \<le> B_in inp * fr_in inp * Vr_in inp
            \<longrightarrow> (\<forall>r \<in> set rows. 0 \<le> bt_SOD r \<and> 0 \<le> bt_EOD r)"
    using final_state_bt[OF st, of sid] by (simp add: bt_inv_def rows)
  show ?thesis using g rt ne hd bt by blast
qed

theorem distance_monotone_strengths_nonnegative_witness:
  "\<not> isl (simulate_one_scenario 1 default_inputs) \<and>
   fst (projr (simulate_one_scenario 1 default_inputs)) \<noteq> [] \<and>
   sorted (map Km_Gained_Cumulative (fst (projr (simulate_one_scenario 1 default_inputs)))) \<and>
   rt_SOD (hd (fst (projr (simulate_one_scenario 1 default_inputs)))) = Fin 1022000 \<and>
   bt_SOD (hd (fst (projr (simulate_one_scenario 1 default_inputs)))) = 2000 \<and>
   list_all (\<lambda>r. 0 \<le> bt_SOD r \<and> 0 \<le> bt_EOD r)
     (fst (projr (simulate_one_scenario 1 default_inputs)))"
proof -
  from default_returns obtain st where st: "static_calculations default_inputs = Inr st" ..
  let ?rows = "daily_log_for_scenario (final_state 1 default_inputs st)"
  have r: "simulate_one_scenario 1 default_inputs =
      Inr (?rows, make_final_outcomes 1 default_inputs (final_state 1 default_inputs st))"
    by (rule simulate_returns[OF st])
  have pre: "0 \<le> B_in default_inputs * (1 - fr_in default_inputs) * wa_in default_inputs \<and>
             0 \<le> B_in default_inputs * fr_in default_inputs * Vr_in default_inputs"
    by (simp add: default_inputs_def)
  show ?thesis
    using distance_monotone_strengths_nonnegative[OF r] pre
    by (simp add: r default_r0 default_b0 list_all_iff del: One_nat_def)
qed

text \<open>
  The claim as stated fails for the defender: with a negative assault frontage the
  first day already starts from a negative defender strength.
\<close>

theorem defender_strength_negative_counterexample:
  "\<not> isl (simulate_one_scenario 1 (default_inputs\<lparr>wa_in := - 25\<rparr>)) \<and>
   bt_SOD (hd (fst (projr (simulate_one_scenario 1 (default_inputs\<lparr>wa_in := - 25\<rparr>))))) = - 2000"
proof -
  let ?inp = "default_inputs\<lparr>wa_in := - 25\<rparr>"
  have "0 < T_rho_of ?inp"
    by (simp add: T_rho_of_def TR_of_def TB_of_def default_inputs_def EPSILON_def)
  with static_calculations_returns[of ?inp]
  obtain st where st: "static_calculations ?inp = Inr st" by blast
  let ?rows = "daily_log_for_scenario (final_state 1 ?inp st)"
  have r: "simulate_one_scenario 1 ?inp =
      Inr (?rows, make_final_outcomes 1 ?inp (final_state 1 ?inp st))"
    by (rule simulate_returns[OF st])
  have ne: "?rows \<noteq> []" by (rule final_state_rows_nonempty)
  have b0: "b0_of ?inp = - 2000"
    by (simp add: b0_of_def wth_norm_def d_norm_def default_inputs_def EPSILON_def)
  have "bt_SOD (hd ?rows) = bt_current (initial_state st)"
    using final_state_first[of st 1 ?inp] ne by (simp add: first_inv_def)
  then have "bt_SOD (hd ?rows) = - 2000"
    by (simp add: initial_state_def static_sel(7)[OF st] b0)
  then show ?thesis by (simp add: r del: One_nat_def)
qed

section \<open>Classification of the outcome\<close>

lemma feq_PInf: "feq x PInf \<longleftrightarrow> x = PInf"
  by (cases x) auto

lemma day_body_flags_fields:
  assumes "simulation_active s" "breakthrough_occurred_flag s = 0"
    "halt_occurred_this_scenario_flag s = 0" "0 < dy"
  shows "breakthrough_occurred_flag (day_body sid inp st dy s) =
           (if d st - EPSILON \<le> G_cumulative (day_body sid inp st dy s) then 1 else 0)"
    and "simulation_active (day_body sid inp st dy s) \<longleftrightarrow>
           \<not> d st - EPSILON \<le> G_cumulative (day_body sid inp st dy s) \<and>
           \<not> (halt_condition st (rt_current s) (bt_current s) \<or> Va_in inp \<le> EPSILON \<or>
              delta_r_daily_rate st = PInf)"
    and "halt_occurred_this_scenario_flag (day_body sid inp st dy s) =
           (if d st - EPSILON \<le> G_cumulative (day_body sid inp st dy s) then 0
            else if halt_condition st (rt_current s) (bt_current s) then 1 else 0)"
  using assms
  by (auto simp: day_body_def Let_def halted_day_def advance_day_def feq_PInf)

lemma flags_inv_upd:
  "flags_inv inp st (s\<lparr>day := a, final_day_of_simulation := b\<rparr>) = flags_inv inp st s"
  by (simp add: flags_inv_def)

lemma day_body_flags:
  assumes "flags_inv inp st s" "simulation_active s" "0 < dy"
  shows "flags_inv inp st (day_body sid inp st dy s)"
proof -
  from assms(1,2) have f: "breakthrough_occurred_flag s = 0"
    "halt_occurred_this_scenario_flag s = 0"
    and old: "\<forall>r \<in> set (daily_log_for_scenario s). Km_Gained_Cumulative r < d st - EPSILON"
    by (simp_all add: flags_inv_def)
  note fl = day_body_flags_fields[OF assms(2) f assms(3), of sid inp st]
  from day_body_row[of sid inp st dy s] obtain r where
    r: "daily_log_for_scenario (day_body sid inp st dy s) = daily_log_for_scenario s @ [r]"
       "Km_Gained_Cumulative r = G_cumulative (day_body sid inp st dy s)"
       "Halt_Condition_Met_SOD r =
         (if halt_condition st (rt_current s) (bt_current s) then 1 else 0)"
    by blast
  show ?thesis
    using old by (auto simp: flags_inv_def fl r)
qed

lemma day_body_last: "last_inv st (day_body sid inp st dy s)"
proof -
  from day_body_row[of sid inp st dy s] obtain r where
    r: "daily_log_for_scenario (day_body sid inp st dy s) = daily_log_for_scenario s @ [r]"
       "Km_Gained_Cumulative r = G_cumulative (day_body sid inp st dy s)"
       "row_static r = st"
       "Simulation_Continues_Next_Day r =
         (if simulation_active (day_body sid inp st dy s) then 1 else 0)"
    by blast
  show ?thesis by (simp add: last_inv_def r)
qed

lemma loop_flags:
  "flags_inv inp st (daily_loop sid inp st 1 (initial_state st))"
proof -
  have i: "flags_inv inp st (initial_state st)" by (simp add: flags_inv_def initial_state_def)
  show ?thesis
  proof (rule daily_loop_invariant[where P = "\<lambda>s. flags_inv inp st s", OF i])
    show "\<And>s a b. flags_inv inp st s \<Longrightarrow>
            flags_inv inp st (s\<lparr>day := a, final_day_of_simulation := b\<rparr>)"
      by (simp add: flags_inv_upd)
    show "\<And>s dy. flags_inv inp st s \<Longrightarrow> simulation_active s \<Longrightarrow> 0 < dy \<Longrightarrow>
            flags_inv inp st (day_body sid inp st dy s)"
      by (rule day_body_flags)
  qed simp
qed

lemma loop_last:
  "last_inv st (daily_loop sid inp st 1 (initial_state st))"
proof -
  have i: "last_inv st (initial_state st)" by (simp add: last_inv_def initial_state_def)
  show ?thesis
  proof (rule daily_loop_invariant[where P = "\<lambda>s. last_inv st s", OF i])
    show "\<And>s a b. last_inv st s \<Longrightarrow> last_inv st (s\<lparr>day := a, final_day_of_simulation := b\<rparr>)"
      by (simp add: last_inv_def)
    show "\<And>s dy. last_inv st s \<Longrightarrow> simulation_active s \<Longrightarrow> 0 < dy \<Longrightarrow>
            last_inv st (day_body sid inp st dy s)"
      by (rule day_body_last)
  qed simp
qed

lemma after_loop_halt_flag:
  "halt_occurred_this_scenario_flag (after_loop st s) =
     (if day_cap_reached s \<and> breakthrough_occurred_flag s = 0 \<and>
         halt_occurred_this_scenario_flag s = 0 \<and>
         halt_condition st (rt_current s) (bt_current s)
      then 1 else halt_occurred_this_scenario_flag s)"
  by (simp add: after_loop_def Let_def)

text \<open>The classification of the state in which the summary is built.\<close>

lemma final_state_classification:
  fixes sid inp st
  defines "s \<equiv> final_state sid inp st"
  defines "r \<equiv> last (daily_log_for_scenario s)"
  defines "cap \<equiv> final_day_of_simulation s = MAX_SIMULATION_DAYS \<and>
                  Simulation_Continues_Next_Day r = 1"
  shows "(breakthrough_occurred_flag s = 1 \<and> halt_occurred_this_scenario_flag s = 0 \<and> \<not> cap \<and>
            d st - EPSILON \<le> G_cumulative s) \<or>
         (breakthrough_occurred_flag s = 0 \<and> halt_occurred_this_scenario_flag s = 1 \<and> \<not> cap \<and>
            Halt_Condition_Met_SOD r = 1) \<or>
         (breakthrough_occurred_flag s = 0 \<and> halt_occurred_this_scenario_flag s = 1 \<and> cap \<and>
            halt_condition st (rt_EOD r) (bt_EOD r)) \<or>
         (breakthrough_occurred_flag s = 0 \<and> halt_occurred_this_scenario_flag s = 0 \<and> cap \<and>
            \<not> halt_condition st (rt_EOD r) (bt_EOD r)) \<or>
         (breakthrough_occurred_flag s = 0 \<and> halt_occurred_this_scenario_flag s = 0 \<and> \<not> cap \<and>
            Halt_Condition_Met_SOD r = 0 \<and>
            (Va_in inp \<le> EPSILON \<or> delta_r_daily_rate st = PInf))"
proof -
  define s' where "s' = daily_loop sid inp st 1 (initial_state st)"
  have s: "s = after_loop st s'" by (simp add: s_def s'_def final_state_def)
  have fl: "flags_inv inp st s'" unfolding s'_def by (rule loop_flags)
  have la: "last_inv st s'" unfolding s'_def by (rule loop_last)
  have dk: "days_ok 1 s'" unfolding s'_def
    by (rule loop_days) (simp_all add: initial_state_def MAX_SIMULATION_DAYS_def)
  have ne: "daily_log_for_scenario s' \<noteq> []" using dk by (auto simp: days_ok_def)
  have ch: "chain_inv s'" using final_state_chain[of sid inp st]
    by (simp add: final_state_def s'_def chain_inv_def)
  have r: "r = last (daily_log_for_scenario s')" by (simp add: r_def s)
  have eod: "rt_EOD r = rt_current s'" "bt_EOD r = bt_current s'"
    using ch ne by (simp_all add: chain_inv_def r)
  have cont: "Simulation_Continues_Next_Day r = (if simulation_active s' then 1 else 0)"
    and lastG: "Km_Gained_Cumulative r = G_cumulative s'"
    using la ne by (simp_all add: last_inv_def r)
  show ?thesis
  proof (cases "simulation_active s'")
    case True
    then have cr: "day_cap_reached s'" using dk by (simp add: day_cap_reached_def days_ok_def)
    have fd: "final_day_of_simulation s = MAX_SIMULATION_DAYS"
      using cr by (simp add: s after_loop_def Let_def)
    have c: cap using fd cont True by (simp add: cap_def)
    have b: "breakthrough_occurred_flag s' = 0" "halt_occurred_this_scenario_flag s' = 0"
      using fl True by (simp_all add: flags_inv_def)
    show ?thesis using c b cr
      by (simp add: s after_loop_halt_flag eod)
  next
    case False
    then have nc: "\<not> cap" using cont by (simp add: cap_def)
    have ss: "s = s'" using False by (simp add: s after_loop_def day_cap_reached_def)
    have fl': "if d st - EPSILON \<le> Km_Gained_Cumulative r
               then breakthrough_occurred_flag s = 1 \<and> halt_occurred_this_scenario_flag s = 0
               else breakthrough_occurred_flag s = 0 \<and>
                    halt_occurred_this_scenario_flag s = Halt_Condition_Met_SOD r \<and>
                    (Halt_Condition_Met_SOD r = 1 \<or>
                     Halt_Condition_Met_SOD r = 0 \<and>
                     (Va_in inp \<le> EPSILON \<or> delta_r_daily_rate st = PInf))"
      using fl False unfolding flags_inv_def ss r by (auto split: if_splits)
    show ?thesis
    proof (cases "d st - EPSILON \<le> Km_Gained_Cumulative r")
      case True
      then show ?thesis using fl' nc lastG by (simp add: ss)
    next
      case False
      then show ?thesis using fl' nc by auto
    qed
  qed
qed

section \<open>A scenario that stops on its first day\<close>

lemma initial_rt: "rt_current (initial_state st) = Fin (max 0 (r0_initial_calc st))"
  by (simp add: initial_state_def max_def)

lemma first_day_stop:
  assumes "halt_condition st (rt_current (initial_state st)) (bt_current (initial_state st)) \<or>
           Va_in inp \<le> EPSILON \<or> delta_r_daily_rate st = PInf"
  shows "final_state sid inp st =
           day_body sid inp st 1 ((initial_state st)\<lparr>day := 1, final_day_of_simulation := 1\<rparr>)"
proof -
  let ?s1 = "(initial_state st)\<lparr>day := 1, final_day_of_simulation := 1\<rparr>"
  have a: "simulation_active ?s1" "breakthrough_occurred_flag ?s1 = 0"
    "halt_occurred_this_scenario_flag ?s1 = 0"
    by (simp_all add: initial_state_def)
  have "\<not> simulation_active (day_body sid inp st 1 ?s1)"
    using assms day_body_flags_fields(2)[OF a, of 1 sid inp st] by simp
  then have l: "daily_loop sid inp st 1 (initial_state st) = day_body sid inp st 1 ?s1"
    and n: "\<not> day_cap_reached (day_body sid inp st 1 ?s1)"
    by (simp_all add: daily_loop_step MAX_SIMULATION_DAYS_def initial_state_def
        day_cap_reached_def)
  show ?thesis unfolding final_state_def l using n by (simp add: after_loop_def)
qed

lemma first_day_stop_fields:
  fixes sid inp st
  assumes "halt_condition st (rt_current (initial_state st)) (bt_current (initial_state st)) \<or>
           Va_in inp \<le> EPSILON \<or> delta_r_daily_rate st = PInf"
  defines "s \<equiv> final_state sid inp st"
  defines "hc \<equiv> (if halt_condition st (rt_current (initial_state st))
                       (bt_current (initial_state st)) then 1 else 0 :: nat)"
  shows "final_day_of_simulation s = 1"
    and "G_cumulative s = 0"
    and "CR_cumulative_on_axis s = 0"
    and "CB_cumulative_no_k6 s = 0"
    and "breakthrough_occurred_flag s = (if d st \<le> EPSILON then 1 else 0)"
    and "halt_occurred_this_scenario_flag s = (if d st \<le> EPSILON then 0 else hc)"
    and "length (daily_log_for_scenario s) = 1"
    and "Halt_Condition_Met_SOD (hd (daily_log_for_scenario s)) = hc"
    and "Simulation_Continues_Next_Day (hd (daily_log_for_scenario s)) = 0"
    and "Km_Gained_Cumulative (hd (daily_log_for_scenario s)) = 0"
proof -
  let ?s1 = "(initial_state st)\<lparr>day := 1, final_day_of_simulation := 1\<rparr>"
  have s: "s = day_body sid inp st 1 ?s1" unfolding s_def by (rule first_day_stop[OF assms(1)])
  have c: "(hc = 1 \<or> Va_in inp \<le> EPSILON \<and> (1::nat) > 0 \<or> feq (delta_r_daily_rate st) PInf)"
    using assms(1) by (auto simp: hc_def feq_PInf)
  have i: "rt_current ?s1 = rt_current (initial_state st)"
    "bt_current ?s1 = bt_current (initial_state st)" by simp_all
  have r: "(if hc = 1 \<or> Va_in inp \<le> EPSILON \<and> (1::nat) > 0 \<or> feq (delta_r_daily_rate st) PInf
            then halted_day hc ?s1 else advance_day inp st 1 ?s1) = halted_day hc ?s1"
    using c by simp
  have h: "hc = 0 \<or> hc = 1" by (simp add: hc_def)
  note defs = s day_body_def i hc_def[symmetric] Let_def r
  show "final_day_of_simulation s = 1" unfolding defs by (simp add: initial_state_def)
  show "G_cumulative s = 0" unfolding defs by (simp add: halted_day_def initial_state_def)
  show "CR_cumulative_on_axis s = 0" unfolding defs by (simp add: halted_day_def initial_state_def)
  show "CB_cumulative_no_k6 s = 0" unfolding defs by (simp add: halted_day_def initial_state_def)
  show "length (daily_log_for_scenario s) = 1" unfolding defs by (simp add: initial_state_def)
  show "Simulation_Continues_Next_Day (hd (daily_log_for_scenario s)) = 0"
    unfolding defs by (simp add: halted_day_def initial_state_def)
  show "Km_Gained_Cumulative (hd (daily_log_for_scenario s)) = 0"
    unfolding defs by (simp add: halted_day_def initial_state_def)
  show "Halt_Condition_Met_SOD (hd (daily_log_for_scenario s)) = hc"
    unfolding defs by (simp add: initial_state_def)
  show "breakthrough_occurred_flag s = (if d st \<le> EPSILON then 1 else 0)"
    unfolding defs by (simp add: halted_day_def initial_state_def)
  show "halt_occurred_this_scenario_flag s = (if d st \<le> EPSILON then 0 else hc)"
    unfolding defs using h by (auto simp: halted_day_def initial_state_def)
qed

lemma T_rho_pos_upd:
  "YR_in inp = 1910 \<Longrightarrow> YB_in inp = 1910 \<Longrightarrow> 0 < T_rho_of inp"
  by (simp add: T_rho_of_def TR_of_def TB_of_def EPSILON_def)

text \<open>
  C1, as the code has it. When the function returns, exactly one of five endings
  holds: (1) the breakthrough flag is set, the halt flag is not, and the day cap was not
  reached; (2) the halt flag is set on a day whose halt condition held; (3) the day cap
  was reached while running and the halt condition holds for the final strengths, which
  sets the halt flag; (4) the day cap was reached while running and the halt condition
  does not hold: no flag is set; (5) the loop stopped on a day whose halt condition did
  not hold, because the assault velocity is at most epsilon or the attrition rate is
  infinite: no flag is set and the day cap was not reached.
\<close>

theorem outcome_classification:
  assumes "simulate_one_scenario sid inp = Inr (rows, fo)"
  shows "(Breakthrough_Occurred fo = 1 \<and> Halt_Occurred fo = 0 \<and> \<not> reached_day_cap rows fo) \<or>
         (Breakthrough_Occurred fo = 0 \<and> Halt_Occurred fo = 1 \<and> \<not> reached_day_cap rows fo \<and>
            Halt_Condition_Met_SOD (last rows) = 1) \<or>
         (Breakthrough_Occurred fo = 0 \<and> Halt_Occurred fo = 1 \<and> reached_day_cap rows fo \<and>
            halt_condition (row_static (last rows)) (rt_EOD (last rows)) (bt_EOD (last rows))) \<or>
         (Breakthrough_Occurred fo = 0 \<and> Halt_Occurred fo = 0 \<and> reached_day_cap rows fo \<and>
            \<not> halt_condition (row_static (last rows)) (rt_EOD (last rows)) (bt_EOD (last rows))) \<or>
         (Breakthrough_Occurred fo = 0 \<and> Halt_Occurred fo = 0 \<and> \<not> reached_day_cap rows fo \<and>
            Halt_Condition_Met_SOD (last rows) = 0 \<and>
            (Va_in inp \<le> EPSILON \<or> delta_r_daily_rate (row_static (last rows)) = PInf))"
proof -
  from assms obtain st where
    st: "static_calculations inp = Inr st" and
    rows: "rows = daily_log_for_scenario (final_state sid inp st)" and
    fo: "fo = make_final_outcomes sid inp (final_state sid inp st)"
    by (rule simulate_Inr)
  have "last_inv st (final_state sid inp st)"
    using loop_last[of st sid inp] by (simp add: final_state_def last_inv_def)
  then have rs: "row_static (last rows) = st"
    using final_state_rows_nonempty[of sid inp st] by (simp add: last_inv_def rows)
  show ?thesis
    using final_state_classification[of sid inp st]
    unfolding rs reached_day_cap_def fo make_final_outcomes_def rows[symmetric]
    by simp blast
qed

lemma stop_inputs_returns:
  assumes "YR_in inp = 1910" "YB_in inp = 1910"
  obtains st where "static_calculations inp = Inr st"
  using static_calculations_returns[of inp] T_rho_pos_upd[OF assms] by blast

theorem outcome_classification_witness:
  "\<not> isl (simulate_one_scenario 1 (default_inputs\<lparr>R_in := 0\<rparr>)) \<and>
   Breakthrough_Occurred (snd (projr (simulate_one_scenario 1 (default_inputs\<lparr>R_in := 0\<rparr>)))) = 0 \<and>
   Halt_Occurred (snd (projr (simulate_one_scenario 1 (default_inputs\<lparr>R_in := 0\<rparr>)))) = 1 \<and>
   Final_Campaign_Duration_Days
     (snd (projr (simulate_one_scenario 1 (default_inputs\<lparr>R_in := 0\<rparr>)))) = 1 \<and>
   Halt_Condition_Met_SOD
     (last (fst (projr (simulate_one_scenario 1 (default_inputs\<lparr>R_in := 0\<rparr>))))) = 1"
proof -
  let ?inp = "default_inputs\<lparr>R_in := 0\<rparr>"
  obtain st where st: "static_calculations ?inp = Inr st"
    by (rule stop_inputs_returns[of ?inp]) (simp_all add: default_inputs_def)
  let ?s = "final_state 1 ?inp st"
  have r: "simulate_one_scenario 1 ?inp =
      Inr (daily_log_for_scenario ?s, make_final_outcomes 1 ?inp ?s)"
    by (rule simulate_returns[OF st])
  have r0: "r0_of ?inp < 0"
    by (simp add: r0_of_def rho2_of_def wth_norm_def default_inputs_def EPSILON_def)
  have hc: "halt_condition st (rt_current (initial_state st)) (bt_current (initial_state st))"
    using r0 EPSILON_pos
    by (simp add: halt_condition_def initial_state_def static_sel(6)[OF st])
  then have c: "halt_condition st (rt_current (initial_state st)) (bt_current (initial_state st))
      \<or> Va_in ?inp \<le> EPSILON \<or> delta_r_daily_rate st = PInf" by simp
  have d: "\<not> d st \<le> EPSILON"
    by (simp add: static_sel(2)[OF st] d_norm_def default_inputs_def EPSILON_def)
  note f = first_day_stop_fields[OF c, of 1]
  have b: "Breakthrough_Occurred (make_final_outcomes 1 ?inp ?s) = 0"
    "Halt_Occurred (make_final_outcomes 1 ?inp ?s) = 1"
    "Final_Campaign_Duration_Days (make_final_outcomes 1 ?inp ?s) = 1"
    using d hc by (simp_all add: make_final_outcomes_def f del: One_nat_def)
  have "\<not> reached_day_cap (daily_log_for_scenario ?s) (make_final_outcomes 1 ?inp ?s)"
    using b(3) by (simp add: reached_day_cap_def MAX_SIMULATION_DAYS_def)
  then have "Halt_Condition_Met_SOD (last (daily_log_for_scenario ?s)) = 1"
    using outcome_classification[OF r] b by auto
  then show ?thesis using b by (simp add: r del: One_nat_def)
qed

text \<open>
  The claim as stated fails when the assault velocity is zero: the loop stops on day 1
  without the halt condition, so that neither flag is set and the day cap is not reached.
\<close>

theorem no_flag_without_day_cap_counterexample:
  "\<not> isl (simulate_one_scenario 1 (default_inputs\<lparr>Va_in := 0\<rparr>)) \<and>
   Breakthrough_Occurred (snd (projr (simulate_one_scenario 1 (default_inputs\<lparr>Va_in := 0\<rparr>)))) = 0 \<and>
   Halt_Occurred (snd (projr (simulate_one_scenario 1 (default_inputs\<lparr>Va_in := 0\<rparr>)))) = 0 \<and>
   Final_Campaign_Duration_Days
     (snd (projr (simulate_one_scenario 1 (default_inputs\<lparr>Va_in := 0\<rparr>)))) = 1 \<and>
   \<not> reached_day_cap (fst (projr (simulate_one_scenario 1 (default_inputs\<lparr>Va_in := 0\<rparr>))))
        (snd (projr (simulate_one_scenario 1 (default_inputs\<lparr>Va_in := 0\<rparr>))))"
proof -
  let ?inp = "default_inputs\<lparr>Va_in := 0\<rparr>"
  obtain st where st: "static_calculations ?inp = Inr st"
    by (rule stop_inputs_returns[of ?inp]) (simp_all add: default_inputs_def)
  let ?s = "final_state 1 ?inp st"
  have r: "simulate_one_scenario 1 ?inp =
      Inr (daily_log_for_scenario ?s, make_final_outcomes 1 ?inp ?s)"
    by (rule simulate_returns[OF st])
  have r0: "r0_of ?inp = 1022000" "b0_of ?inp = 2000" "H_of ?inp = 5 / 2"
    by (simp_all add: r0_of_def rho2_of_def b0_of_def H_of_def wth_norm_def d_norm_def
        default_inputs_def EPSILON_def)
  have hc: "\<not> halt_condition st (rt_current (initial_state st)) (bt_current (initial_state st))"
    by (simp add: halt_condition_def initial_state_def static_sel(4,6,7)[OF st] r0 EPSILON_def)
  have c: "halt_condition st (rt_current (initial_state st)) (bt_current (initial_state st))
      \<or> Va_in ?inp \<le> EPSILON \<or> delta_r_daily_rate st = PInf"
    by (simp add: default_inputs_def EPSILON_def)
  have d: "\<not> d st \<le> EPSILON"
    by (simp add: static_sel(2)[OF st] d_norm_def default_inputs_def EPSILON_def)
  note f = first_day_stop_fields[OF c, of 1]
  have b: "Breakthrough_Occurred (make_final_outcomes 1 ?inp ?s) = 0"
    "Halt_Occurred (make_final_outcomes 1 ?inp ?s) = 0"
    "Final_Campaign_Duration_Days (make_final_outcomes 1 ?inp ?s) = 1"
    using d hc by (simp_all add: make_final_outcomes_def f del: One_nat_def)
  have "\<not> reached_day_cap (daily_log_for_scenario ?s) (make_final_outcomes 1 ?inp ?s)"
    using b(3) by (simp add: reached_day_cap_def MAX_SIMULATION_DAYS_def)
  then show ?thesis using b by (simp add: r del: One_nat_def)
qed

lemma final_state_breakthrough_row:
  assumes "r \<in> set (daily_log_for_scenario (final_state sid inp st))"
    and "d st - EPSILON \<le> Km_Gained_Cumulative r"
  shows "breakthrough_occurred_flag (final_state sid inp st) = 1 \<and>
         halt_occurred_this_scenario_flag (final_state sid inp st) = 0"
proof -
  define s' where "s' = daily_loop sid inp st 1 (initial_state st)"
  have s: "final_state sid inp st = after_loop st s'" by (simp add: s'_def final_state_def)
  have fl: "flags_inv inp st s'" unfolding s'_def by (rule loop_flags)
  have r: "r \<in> set (daily_log_for_scenario s')" using assms(1) by (simp add: s)
  show ?thesis
  proof (cases "simulation_active s'")
    case True
    then have "Km_Gained_Cumulative r < d st - EPSILON"
      using fl r by (simp add: flags_inv_def)
    then show ?thesis using assms(2) by simp
  next
    case False
    then have ss: "after_loop st s' = s'" by (simp add: after_loop_def day_cap_reached_def)
    from fl False have ne: "daily_log_for_scenario s' \<noteq> []"
      and bl: "\<forall>r \<in> set (butlast (daily_log_for_scenario s')).
                  Km_Gained_Cumulative r < d st - EPSILON"
      and la: "d st - EPSILON \<le> Km_Gained_Cumulative (last (daily_log_for_scenario s')) \<longrightarrow>
               breakthrough_occurred_flag s' = 1 \<and> halt_occurred_this_scenario_flag s' = 0"
      unfolding flags_inv_def by (auto split: if_splits)
    have "r \<in> set (butlast (daily_log_for_scenario s')) \<or> r = last (daily_log_for_scenario s')"
      using r ne by (cases "daily_log_for_scenario s'" rule: rev_cases) auto
    then have "r = last (daily_log_for_scenario s')" using bl assms(2) by fastforce
    then show ?thesis using la assms(2) by (simp add: s ss)
  qed
qed

text \<open>
  C2. If on some simulated day the halt condition holds at the start of the day and the
  cumulative distance of that day reaches the depth (the breakthrough test of line 208),
  the summary reports a breakthrough and no halt.
\<close>

theorem breakthrough_overrides_same_day_halt:
  assumes "simulate_one_scenario sid inp = Inr (rows, fo)"
    and "r \<in> set rows"
    and "Halt_Condition_Met_SOD r = 1"
    and "d_norm inp - EPSILON \<le> Km_Gained_Cumulative r"
  shows "Breakthrough_Occurred fo = 1 \<and> Halt_Occurred fo = 0"
proof -
  from assms(1) obtain st where
    st: "static_calculations inp = Inr st" and
    rows: "rows = daily_log_for_scenario (final_state sid inp st)" and
    fo: "fo = make_final_outcomes sid inp (final_state sid inp st)"
    by (rule simulate_Inr)
  have "d st - EPSILON \<le> Km_Gained_Cumulative r"
    using assms(4) by (simp add: static_sel(2)[OF st])
  with assms(2) show ?thesis
    using final_state_breakthrough_row[of r sid inp st]
    by (simp add: rows fo make_final_outcomes_def)
qed

theorem breakthrough_overrides_same_day_halt_witness:
  "\<not> isl (simulate_one_scenario 1 (default_inputs\<lparr>R_in := 100000, d_in := 0\<rparr>)) \<and>
   fst (projr (simulate_one_scenario 1 (default_inputs\<lparr>R_in := 100000, d_in := 0\<rparr>))) \<noteq> [] \<and>
   Halt_Condition_Met_SOD
     (hd (fst (projr (simulate_one_scenario 1 (default_inputs\<lparr>R_in := 100000, d_in := 0\<rparr>))))) = 1 \<and>
   d_norm (default_inputs\<lparr>R_in := 100000, d_in := 0\<rparr>) - EPSILON \<le>
     Km_Gained_Cumulative
       (hd (fst (projr (simulate_one_scenario 1 (default_inputs\<lparr>R_in := 100000, d_in := 0\<rparr>))))) \<and>
   Breakthrough_Occurred
     (snd (projr (simulate_one_scenario 1 (default_inputs\<lparr>R_in := 100000, d_in := 0\<rparr>)))) = 1 \<and>
   Halt_Occurred
     (snd (projr (simulate_one_scenario 1 (default_inputs\<lparr>R_in := 100000, d_in := 0\<rparr>)))) = 0"
proof -
  let ?inp = "default_inputs\<lparr>R_in := 100000, d_in := 0\<rparr>"
  obtain st where st: "static_calculations ?inp = Inr st"
    by (rule stop_inputs_returns[of ?inp]) (simp_all add: default_inputs_def)
  let ?s = "final_state 1 ?inp st"
  let ?rows = "daily_log_for_scenario ?s"
  have r: "simulate_one_scenario 1 ?inp = Inr (?rows, make_final_outcomes 1 ?inp ?s)"
    by (rule simulate_returns[OF st])
  have r0: "r0_of ?inp < 0"
    by (simp add: r0_of_def rho2_of_def wth_norm_def default_inputs_def EPSILON_def)
  have hc: "halt_condition st (rt_current (initial_state st)) (bt_current (initial_state st))"
    using r0 EPSILON_pos
    by (simp add: halt_condition_def initial_state_def static_sel(6)[OF st])
  then have c: "halt_condition st (rt_current (initial_state st)) (bt_current (initial_state st))
      \<or> Va_in ?inp \<le> EPSILON \<or> delta_r_daily_rate st = PInf" by simp
  note f = first_day_stop_fields[OF c, of 1]
  have ne: "?rows \<noteq> []" by (rule final_state_rows_nonempty)
  then have m: "hd ?rows \<in> set ?rows" by simp
  have h: "Halt_Condition_Met_SOD (hd ?rows) = 1" using hc by (simp add: f del: One_nat_def)
  have dn: "d_norm ?inp = EPSILON" by (simp add: d_norm_def default_inputs_def)
  have g: "d_norm ?inp - EPSILON \<le> Km_Gained_Cumulative (hd ?rows)"
    by (simp add: dn f del: One_nat_def)
  show ?thesis
    using breakthrough_overrides_same_day_halt[OF r m h g] ne h g
    by (simp add: r del: One_nat_def)
qed

text \<open>
  C5, as the code has it. If the start-of-day strengths of day 1 (the clamped r0 and b0)
  satisfy \<open>rt \<le> H bt\<close>, the simulation stops on day 1: one row, whose halt condition is
  met and which does not continue, a duration of one day, no distance gained and no
  on-axis casualties. The summary reports a halt unless the depth is at most epsilon, in
  which case the breakthrough test holds on the same day and the summary reports a
  breakthrough and no halt.
\<close>

theorem halt_on_first_day:
  assumes "simulate_one_scenario sid inp = Inr (rows, fo)"
    and "max 0 (r0_of inp) \<le> H_of inp * b0_of inp"
  shows "Final_Campaign_Duration_Days fo = 1 \<and> length rows = 1 \<and>
         Halt_Condition_Met_SOD (hd rows) = 1 \<and>
         Simulation_Continues_Next_Day (hd rows) = 0 \<and>
         Final_Km_Gained_Cumulative fo = 0 \<and>
         Final_Inv_Cas_POA_Cumulative_OnAxis fo = 0 \<and>
         Halt_Occurred fo = (if d_norm inp \<le> EPSILON then 0 else 1) \<and>
         Breakthrough_Occurred fo = (if d_norm inp \<le> EPSILON then 1 else 0)"
proof -
  from assms(1) obtain st where
    st: "static_calculations inp = Inr st" and
    rows: "rows = daily_log_for_scenario (final_state sid inp st)" and
    fo: "fo = make_final_outcomes sid inp (final_state sid inp st)"
    by (rule simulate_Inr)
  have hc: "halt_condition st (rt_current (initial_state st)) (bt_current (initial_state st))"
    using assms(2) EPSILON_pos
    by (simp add: halt_condition_def initial_rt initial_state_def static_sel(4,6,7)[OF st])
  then have c: "halt_condition st (rt_current (initial_state st)) (bt_current (initial_state st))
      \<or> Va_in inp \<le> EPSILON \<or> delta_r_daily_rate st = PInf" by simp
  note f = first_day_stop_fields[OF c, of sid]
  show ?thesis
    using hc by (simp add: rows fo make_final_outcomes_def f static_sel(2)[OF st])
qed

theorem halt_on_first_day_witness:
  "\<not> isl (simulate_one_scenario 1 (default_inputs\<lparr>R_in := 200000\<rparr>)) \<and>
   max 0 (r0_of (default_inputs\<lparr>R_in := 200000\<rparr>)) \<le>
     H_of (default_inputs\<lparr>R_in := 200000\<rparr>) * b0_of (default_inputs\<lparr>R_in := 200000\<rparr>) \<and>
   Final_Campaign_Duration_Days
     (snd (projr (simulate_one_scenario 1 (default_inputs\<lparr>R_in := 200000\<rparr>)))) = 1 \<and>
   Final_Km_Gained_Cumulative
     (snd (projr (simulate_one_scenario 1 (default_inputs\<lparr>R_in := 200000\<rparr>)))) = 0 \<and>
   Final_Inv_Cas_POA_Cumulative_OnAxis
     (snd (projr (simulate_one_scenario 1 (default_inputs\<lparr>R_in := 200000\<rparr>)))) = 0 \<and>
   Halt_Occurred (snd (projr (simulate_one_scenario 1 (default_inputs\<lparr>R_in := 200000\<rparr>)))) = 1 \<and>
   Breakthrough_Occurred
     (snd (projr (simulate_one_scenario 1 (default_inputs\<lparr>R_in := 200000\<rparr>)))) = 0"
proof -
  let ?inp = "default_inputs\<lparr>R_in := 200000\<rparr>"
  obtain st where st: "static_calculations ?inp = Inr st"
    by (rule stop_inputs_returns[of ?inp]) (simp_all add: default_inputs_def)
  let ?s = "final_state 1 ?inp st"
  have r: "simulate_one_scenario 1 ?inp =
      Inr (daily_log_for_scenario ?s, make_final_outcomes 1 ?inp ?s)"
    by (rule simulate_returns[OF st])
  have v: "r0_of ?inp = - 28000" "b0_of ?inp = 2000" "H_of ?inp = 5 / 2"
    "\<not> d_norm ?inp \<le> EPSILON"
    by (simp_all add: r0_of_def rho2_of_def b0_of_def H_of_def wth_norm_def d_norm_def
        default_inputs_def EPSILON_def)
  have p: "max 0 (r0_of ?inp) \<le> H_of ?inp * b0_of ?inp" by (simp add: v)
  show ?thesis
    using halt_on_first_day[OF r p] p v(4) by (simp add: r del: One_nat_def)
qed

text \<open>
  The claim as stated fails for a depth of zero (normalised to epsilon): the day-1 halt
  condition holds, but the breakthrough test holds on the same day and the summary
  reports a breakthrough, not a halt.
\<close>

theorem first_day_halt_reported_as_breakthrough_counterexample:
  "\<not> isl (simulate_one_scenario 1 (default_inputs\<lparr>R_in := 200000, d_in := 0\<rparr>)) \<and>
   max 0 (r0_of (default_inputs\<lparr>R_in := 200000, d_in := 0\<rparr>)) \<le>
     H_of (default_inputs\<lparr>R_in := 200000, d_in := 0\<rparr>) *
     b0_of (default_inputs\<lparr>R_in := 200000, d_in := 0\<rparr>) \<and>
   Halt_Occurred
     (snd (projr (simulate_one_scenario 1 (default_inputs\<lparr>R_in := 200000, d_in := 0\<rparr>)))) = 0 \<and>
   Breakthrough_Occurred
     (snd (projr (simulate_one_scenario 1 (default_inputs\<lparr>R_in := 200000, d_in := 0\<rparr>)))) = 1"
proof -
  let ?inp = "default_inputs\<lparr>R_in := 200000, d_in := 0\<rparr>"
  obtain st where st: "static_calculations ?inp = Inr st"
    by (rule stop_inputs_returns[of ?inp]) (simp_all add: default_inputs_def)
  let ?s = "final_state 1 ?inp st"
  have r: "simulate_one_scenario 1 ?inp =
      Inr (daily_log_for_scenario ?s, make_final_outcomes 1 ?inp ?s)"
    by (rule simulate_returns[OF st])
  have v: "r0_of ?inp = - 28000" "0 \<le> b0_of ?inp" "H_of ?inp = 5 / 2"
    "d_norm ?inp = EPSILON"
    by (simp_all add: r0_of_def rho2_of_def b0_of_def H_of_def wth_norm_def d_norm_def
        default_inputs_def EPSILON_def)
  have p: "max 0 (r0_of ?inp) \<le> H_of ?inp * b0_of ?inp" using v(2) by (simp add: v(1,3))
  have hc: "halt_condition st (rt_current (initial_state st)) (bt_current (initial_state st))"
    using p EPSILON_pos
    by (simp add: halt_condition_def initial_rt initial_state_def static_sel(4,6,7)[OF st])
  then have c: "halt_condition st (rt_current (initial_state st)) (bt_current (initial_state st))
      \<or> Va_in ?inp \<le> EPSILON \<or> delta_r_daily_rate st = PInf" by simp
  note f = first_day_stop_fields[OF c, of 1]
  show ?thesis
    using p by (simp add: r make_final_outcomes_def f static_sel(2)[OF st] v(4) del: One_nat_def)
qed

section \<open>Breakthrough and depth\<close>

lemma day_body_G_step:
  assumes "0 < dy"
  shows "G_cumulative (day_body sid inp st dy s) = G_cumulative s \<or>
         EPSILON < Va_in inp \<and> G_cumulative (day_body sid inp st dy s) = G_cumulative s + Va_in inp"
  using assms by (auto simp: day_body_def Let_def halted_day_def advance_day_def)

lemma day_body_Gbound:
  assumes "Gbound_inv inp s" "0 < dy"
  shows "Gbound_inv inp (day_body sid inp st dy s)"
proof -
  have m: "0 \<le> max 0 (Va_in inp)" by simp
  from day_body_G_step[OF assms(2), of sid inp st s] show ?thesis
  proof
    assume "G_cumulative (day_body sid inp st dy s) = G_cumulative s"
    then show ?thesis using assms(1) m by (simp add: Gbound_inv_def algebra_simps)
  next
    assume a: "EPSILON < Va_in inp \<and>
               G_cumulative (day_body sid inp st dy s) = G_cumulative s + Va_in inp"
    then have "max 0 (Va_in inp) = Va_in inp" using EPSILON_pos by simp
    then show ?thesis using assms(1) a by (simp add: Gbound_inv_def algebra_simps)
  qed
qed

lemma final_state_Gbound: "Gbound_inv inp (final_state sid inp st)"
proof -
  have i: "Gbound_inv inp (initial_state st)" by (simp add: Gbound_inv_def initial_state_def)
  have "Gbound_inv inp (daily_loop sid inp st 1 (initial_state st))"
  proof (rule daily_loop_invariant[where P = "\<lambda>s. Gbound_inv inp s", OF i])
    show "\<And>s a b. Gbound_inv inp s \<Longrightarrow>
            Gbound_inv inp (s\<lparr>day := a, final_day_of_simulation := b\<rparr>)"
      by (simp add: Gbound_inv_def)
    show "\<And>s dy. Gbound_inv inp s \<Longrightarrow> simulation_active s \<Longrightarrow> 0 < dy \<Longrightarrow>
            Gbound_inv inp (day_body sid inp st dy s)"
      by (rule day_body_Gbound)
  qed simp
  then show ?thesis by (simp add: final_state_def Gbound_inv_def)
qed

text \<open>
  C6, as the code has it. The breakthrough flag is set only when the cumulative distance
  has reached the depth up to the tolerance, \<open>G \<ge> d - EPSILON\<close> (d the depth after its
  normalisation). The distance grows by at most Va a day, so with Va = 4.5 and d = 15 a
  breakthrough takes at least four days.
\<close>

theorem breakthrough_requires_depth:
  assumes "simulate_one_scenario sid inp = Inr (rows, fo)"
    and "Breakthrough_Occurred fo = 1"
  shows "d_norm inp - EPSILON \<le> Final_Km_Gained_Cumulative fo \<and>
         (Va_in inp = 45 / 10 \<and> d_in inp = 15 \<longrightarrow> 4 \<le> Final_Campaign_Duration_Days fo)"
proof -
  from assms(1) obtain st where
    st: "static_calculations inp = Inr st" and
    rows: "rows = daily_log_for_scenario (final_state sid inp st)" and
    fo: "fo = make_final_outcomes sid inp (final_state sid inp st)"
    by (rule simulate_Inr)
  let ?s = "final_state sid inp st"
  have b: "breakthrough_occurred_flag ?s = 1"
    using assms(2) by (simp add: fo make_final_outcomes_def)
  have g: "d_norm inp - EPSILON \<le> G_cumulative ?s"
    using final_state_classification[of sid inp st] b by (auto simp: static_sel(2)[OF st])
  have dk: "length (daily_log_for_scenario ?s) = final_day_of_simulation ?s"
    using final_state_days[of sid inp st] by (simp add: days_ok_def)
  have bound: "G_cumulative ?s \<le> real (final_day_of_simulation ?s) * max 0 (Va_in inp)"
    using final_state_Gbound[of inp sid st] by (simp add: Gbound_inv_def dk)
  have "4 \<le> final_day_of_simulation ?s" if v: "Va_in inp = 45 / 10" and d: "d_in inp = 15"
  proof (rule ccontr)
    assume "\<not> 4 \<le> final_day_of_simulation ?s"
    then have "real (final_day_of_simulation ?s) \<le> 3" by simp
    then have "real (final_day_of_simulation ?s) * (45 / 10) \<le> 3 * (45 / 10)"
      by (intro mult_right_mono) simp_all
    then have "G_cumulative ?s \<le> 135 / 10" using bound v by simp
    moreover have "d_norm inp - EPSILON > 135 / 10" using d by (simp add: d_norm_def EPSILON_def)
    ultimately show False using g by simp
  qed
  then show ?thesis using g by (simp add: fo make_final_outcomes_def)
qed

section \<open>Days of advance\<close>

lemma advance_fields:
  assumes "simulation_active s" "breakthrough_occurred_flag s = 0"
    "halt_occurred_this_scenario_flag s = 0"
    and "\<not> halt_condition st (rt_current s) (bt_current s)" and "EPSILON < Va_in inp"
    and "delta_r_daily_rate st = Fin \<delta>" and "rt_current s = Fin x" and "0 < dy"
  shows "G_cumulative (day_body sid inp st dy s) = G_cumulative s + Va_in inp"
    and "rt_current (day_body sid inp st dy s) = Fin (if x - \<delta> < 0 then 0 else x - \<delta>)"
    and "bt_current (day_body sid inp st dy s) =
           bt_current s +
           (if flt (Fin (real (dy - 1)))
                   (if Vr_in inp > EPSILON then Fin (wth st / Vr_in inp) else PInf)
            then (B_in inp * fr_in inp * Vr_in inp * Ps_calc st) / wth st else 0)"
  using assms by (simp_all add: day_body_def Let_def advance_day_def fsub_def)

lemma loop_advance:
  fixes sid
  assumes "simulation_active s" "breakthrough_occurred_flag s = 0"
    "halt_occurred_this_scenario_flag s = 0"
    and "\<not> halt_condition st (rt_current s) (bt_current s)" and "EPSILON < Va_in inp"
    and "delta_r_daily_rate st = Fin \<delta>" and "rt_current s = Fin x"
    and "0 < dy" "dy < MAX_SIMULATION_DAYS"
    and "\<not> d st - EPSILON \<le> G_cumulative s + Va_in inp"
  defines "s' \<equiv> day_body sid inp st dy (s\<lparr>day := dy, final_day_of_simulation := dy\<rparr>)"
  shows "daily_loop sid inp st dy s = daily_loop sid inp st (dy + 1) s'"
    and "simulation_active s'" and "breakthrough_occurred_flag s' = 0"
    and "halt_occurred_this_scenario_flag s' = 0"
    and "G_cumulative s' = G_cumulative s + Va_in inp"
    and "rt_current s' = Fin (if x - \<delta> < 0 then 0 else x - \<delta>)"
    and "bt_current s' =
           bt_current s +
           (if flt (Fin (real (dy - 1)))
                   (if Vr_in inp > EPSILON then Fin (wth st / Vr_in inp) else PInf)
            then (B_in inp * fr_in inp * Vr_in inp * Ps_calc st) / wth st else 0)"
proof -
  let ?s1 = "s\<lparr>day := dy, final_day_of_simulation := dy\<rparr>"
  have a: "simulation_active ?s1" "breakthrough_occurred_flag ?s1 = 0"
    "halt_occurred_this_scenario_flag ?s1 = 0"
    "\<not> halt_condition st (rt_current ?s1) (bt_current ?s1)" "rt_current ?s1 = Fin x"
    using assms(1-4,7) by simp_all
  note f = advance_fields[OF a(1-4) assms(5,6) a(5) assms(8), of sid]
  note g = day_body_flags_fields[OF a(1-3) assms(8), of sid inp st]
  show G: "G_cumulative s' = G_cumulative s + Va_in inp" unfolding s'_def by (simp add: f)
  show act: "simulation_active s'"
    unfolding s'_def using assms(4,5,6,10) by (simp add: g f)
  show "breakthrough_occurred_flag s' = 0" unfolding s'_def using assms(10) by (simp add: g f)
  show "halt_occurred_this_scenario_flag s' = 0"
    unfolding s'_def using assms(4,10) by (simp add: g f)
  show "rt_current s' = Fin (if x - \<delta> < 0 then 0 else x - \<delta>)" unfolding s'_def by (simp add: f)
  show "bt_current s' =
           bt_current s +
           (if flt (Fin (real (dy - 1)))
                   (if Vr_in inp > EPSILON then Fin (wth st / Vr_in inp) else PInf)
            then (B_in inp * fr_in inp * Vr_in inp * Ps_calc st) / wth st else 0)"
    unfolding s'_def by (simp add: f)
  show "daily_loop sid inp st dy s = daily_loop sid inp st (dy + 1) s'"
    using act assms(1,9) unfolding s'_def by (simp add: daily_loop_step)
qed

lemma loop_breakthrough:
  fixes sid
  assumes "simulation_active s" "breakthrough_occurred_flag s = 0"
    "halt_occurred_this_scenario_flag s = 0"
    and "\<not> halt_condition st (rt_current s) (bt_current s)" and "EPSILON < Va_in inp"
    and "delta_r_daily_rate st = Fin \<delta>" and "rt_current s = Fin x"
    and "0 < dy" "dy \<le> MAX_SIMULATION_DAYS"
    and "d st - EPSILON \<le> G_cumulative s + Va_in inp"
  defines "s' \<equiv> after_loop st (daily_loop sid inp st dy s)"
  shows "breakthrough_occurred_flag s' = 1"
    and "halt_occurred_this_scenario_flag s' = 0"
    and "G_cumulative s' = G_cumulative s + Va_in inp"
    and "final_day_of_simulation s' = dy"
proof -
  let ?s1 = "s\<lparr>day := dy, final_day_of_simulation := dy\<rparr>"
  let ?s2 = "day_body sid inp st dy ?s1"
  have a: "simulation_active ?s1" "breakthrough_occurred_flag ?s1 = 0"
    "halt_occurred_this_scenario_flag ?s1 = 0"
    "\<not> halt_condition st (rt_current ?s1) (bt_current ?s1)" "rt_current ?s1 = Fin x"
    using assms(1-4,7) by simp_all
  note f = advance_fields[OF a(1-4) assms(5,6) a(5) assms(8), of sid]
  note g = day_body_flags_fields[OF a(1-3) assms(8), of sid inp st]
  have G: "G_cumulative ?s2 = G_cumulative s + Va_in inp" by (simp add: f)
  have act: "\<not> simulation_active ?s2" using assms(10) by (simp add: g f)
  have l: "daily_loop sid inp st dy s = ?s2"
    using act assms(1,9) by (simp add: daily_loop_step)
  have s': "s' = ?s2" unfolding s'_def l using act by (simp add: after_loop_def day_cap_reached_def)
  show "breakthrough_occurred_flag s' = 1" using assms(10) by (simp add: s' g f)
  show "halt_occurred_this_scenario_flag s' = 0" using assms(10) by (simp add: s' g f)
  show "G_cumulative s' = G_cumulative s + Va_in inp" by (simp add: s' f)
  show "final_day_of_simulation s' = dy" by (simp add: s')
qed

lemma delta_r_of_Fin:
  "delta_r_of inp (Fin \<rho>) =
     Fin (if Ca_of inp * Va_in inp + 2 * \<rho> * Va_in inp < 0 then 0
          else Ca_of inp * Va_in inp + 2 * \<rho> * Va_in inp)"
  by (simp add: delta_r_of_def Let_def)

lemma sqrt_T_rho_default: "1 / 2 \<le> (1 / (1 + EPSILON)) powr (1 / 2)"
proof -
  have "(1 / 2)\<^sup>2 \<le> 1 / (1 + EPSILON)" by (simp add: EPSILON_def power2_eq_square)
  then have "1 / 2 \<le> sqrt (1 / (1 + EPSILON))" by (rule real_le_rsqrt)
  moreover have "(1 / (1 + EPSILON)) powr (1 / 2) = sqrt (1 / (1 + EPSILON))"
    using EPSILON_pos by (intro powr_half_sqrt) simp
  ultimately show ?thesis by simp
qed

lemma default_like_static:
  assumes "YR_in inp = 1910" "YB_in inp = 1910" "k4_in inp = 1 / 2"
  obtains st \<rho> where "static_calculations inp = Inr st"
    and "delta_r_daily_rate st =
           Fin (if Ca_of inp * Va_in inp + 2 * \<rho> * Va_in inp < 0 then 0
                else Ca_of inp * Va_in inp + 2 * \<rho> * Va_in inp)"
    and "\<rho> = (k9_in inp * B_in inp * fr_in inp * Ps_of inp) / ((1 / (1 + EPSILON)) powr (1 / 2))"
proof -
  have T: "T_rho_of inp = 1 / (1 + EPSILON)"
    using assms by (simp add: T_rho_of_def TR_of_def TB_of_def EPSILON_def)
  have Tp: "0 < T_rho_of inp" unfolding T using EPSILON_pos by simp
  have dn: "rho1_denominator_of inp = Inr (Some ((1 / (1 + EPSILON)) powr (1 / 2)))"
  proof -
    have "math_pow (1 / (1 + EPSILON)) (1 / 2) = Inr ((1 / (1 + EPSILON)) powr (1 / 2))"
      using EPSILON_pos by (simp add: math_pow_def)
    moreover have "0 \<le> 1 / (1 + EPSILON)" using EPSILON_pos by simp
    ultimately show ?thesis unfolding rho1_denominator_of_def T assms(3) by simp
  qed
  have big: "\<not> \<bar>(1 / (1 + EPSILON)) powr (1 / 2)\<bar> < EPSILON"
    using sqrt_T_rho_default by (simp add: EPSILON_def)
  define \<rho> where "\<rho> = (k9_in inp * B_in inp * fr_in inp * Ps_of inp) /
      ((1 / (1 + EPSILON)) powr (1 / 2))"
  have r1: "rho1_of inp (Some ((1 / (1 + EPSILON)) powr (1 / 2))) = Fin \<rho>"
    using big by (simp add: rho1_of_def Let_def \<rho>_def)
  obtain st where st: "static_calculations inp = Inr st"
    by (simp add: static_calculations_def dn)
  have "delta_r_daily_rate st = delta_r_of inp (Fin \<rho>)"
    using st by (auto simp: static_calculations_def dn r1)
  then show ?thesis using that[OF st _ \<rho>_def] by (simp add: delta_r_of_Fin)
qed

text \<open>
  The claim as stated fails by the tolerance: with a depth of 4.5000000005 km and the
  default velocity of 4.5 km a day, day 1 ends with a breakthrough although the distance
  gained, 4.5 km, is less than the depth.
\<close>

theorem breakthrough_below_depth_counterexample:
  "\<not> isl (simulate_one_scenario 1 (default_inputs\<lparr>d_in := 9000000001 / 2000000000\<rparr>)) \<and>
   Breakthrough_Occurred
     (snd (projr (simulate_one_scenario 1 (default_inputs\<lparr>d_in := 9000000001 / 2000000000\<rparr>)))) = 1 \<and>
   Final_Km_Gained_Cumulative
     (snd (projr (simulate_one_scenario 1 (default_inputs\<lparr>d_in := 9000000001 / 2000000000\<rparr>))))
     = 9 / 2 \<and>
   Final_Km_Gained_Cumulative
     (snd (projr (simulate_one_scenario 1 (default_inputs\<lparr>d_in := 9000000001 / 2000000000\<rparr>))))
     < d_in (default_inputs\<lparr>d_in := 9000000001 / 2000000000\<rparr>)"
proof -
  let ?inp = "default_inputs\<lparr>d_in := 9000000001 / 2000000000\<rparr>"
  have a: "YR_in ?inp = 1910" "YB_in ?inp = 1910" "k4_in ?inp = 1 / 2"
    by (simp_all add: default_inputs_def)
  obtain st \<delta> where st: "static_calculations ?inp = Inr st"
    and dl: "delta_r_daily_rate st = Fin \<delta>"
    using default_like_static[OF a] by metis
  let ?s = "final_state 1 ?inp st"
  have r: "simulate_one_scenario 1 ?inp =
      Inr (daily_log_for_scenario ?s, make_final_outcomes 1 ?inp ?s)"
    by (rule simulate_returns[OF st])
  have v: "r0_of ?inp = 1022000" "b0_of ?inp * (9000000001 / 2000000000) = 30000"
    "H_of ?inp = 5 / 2" "d_norm ?inp = 9000000001 / 2000000000" "Va_in ?inp = 9 / 2"
    by (simp_all add: r0_of_def rho2_of_def b0_of_def H_of_def wth_norm_def d_norm_def
        default_inputs_def EPSILON_def)
  have "b0_of ?inp * (9 / 2) \<le> b0_of ?inp * (9000000001 / 2000000000)"
    by (simp add: b0_of_def wth_norm_def d_norm_def default_inputs_def EPSILON_def)
  then have b: "b0_of ?inp \<le> 10000" using v(2) by simp
  have i: "simulation_active (initial_state st)"
    "breakthrough_occurred_flag (initial_state st) = 0"
    "halt_occurred_this_scenario_flag (initial_state st) = 0"
    "rt_current (initial_state st) = Fin 1022000"
    "bt_current (initial_state st) = b0_of ?inp"
    "G_cumulative (initial_state st) = 0"
    by (simp_all add: initial_state_def static_sel(6,7)[OF st] v)
  have nh: "\<not> halt_condition st (rt_current (initial_state st)) (bt_current (initial_state st))"
    using b by (simp add: halt_condition_def i static_sel(4)[OF st] v EPSILON_def)
  have va: "EPSILON < Va_in ?inp" by (simp add: v EPSILON_def)
  have g: "d st - EPSILON \<le> G_cumulative (initial_state st) + Va_in ?inp"
    by (simp add: static_sel(2)[OF st] v i EPSILON_def)
  note f = loop_breakthrough[OF i(1-3) nh va dl i(4) _ _ g, of 1 1, folded final_state_def]
  have "breakthrough_occurred_flag ?s = 1" "G_cumulative ?s = 9 / 2"
    using f(1,3) by (simp_all add: MAX_SIMULATION_DAYS_def i v)
  then show ?thesis
    by (simp add: r make_final_outcomes_def del: One_nat_def)
qed

theorem breakthrough_requires_depth_witness:
  "\<not> isl (simulate_one_scenario 1 (default_inputs\<lparr>R_in := 2000000\<rparr>)) \<and>
   Breakthrough_Occurred
     (snd (projr (simulate_one_scenario 1 (default_inputs\<lparr>R_in := 2000000\<rparr>)))) = 1 \<and>
   Va_in (default_inputs\<lparr>R_in := 2000000\<rparr>) = 45 / 10 \<and>
   d_in (default_inputs\<lparr>R_in := 2000000\<rparr>) = 15 \<and>
   Final_Campaign_Duration_Days
     (snd (projr (simulate_one_scenario 1 (default_inputs\<lparr>R_in := 2000000\<rparr>)))) = 4 \<and>
   Final_Km_Gained_Cumulative
     (snd (projr (simulate_one_scenario 1 (default_inputs\<lparr>R_in := 2000000\<rparr>)))) = 18 \<and>
   d_norm (default_inputs\<lparr>R_in := 2000000\<rparr>) - EPSILON \<le>
     Final_Km_Gained_Cumulative
       (snd (projr (simulate_one_scenario 1 (default_inputs\<lparr>R_in := 2000000\<rparr>))))"
proof -
  let ?inp = "default_inputs\<lparr>R_in := 2000000\<rparr>"
  have a: "YR_in ?inp = 1910" "YB_in ?inp = 1910" "k4_in ?inp = 1 / 2"
    by (simp_all add: default_inputs_def)
  obtain st \<rho> where st: "static_calculations ?inp = Inr st"
    and dl0: "delta_r_daily_rate st =
           Fin (if Ca_of ?inp * Va_in ?inp + 2 * \<rho> * Va_in ?inp < 0 then 0
                else Ca_of ?inp * Va_in ?inp + 2 * \<rho> * Va_in ?inp)"
    and rho: "\<rho> = (k9_in ?inp * B_in ?inp * fr_in ?inp * Ps_of ?inp) /
                   ((1 / (1 + EPSILON)) powr (1 / 2))"
    using default_like_static[OF a] by metis
  define \<delta> where "\<delta> = (if Ca_of ?inp * Va_in ?inp + 2 * \<rho> * Va_in ?inp < 0 then 0
                else Ca_of ?inp * Va_in ?inp + 2 * \<rho> * Va_in ?inp)"
  have dl: "delta_r_daily_rate st = Fin \<delta>" by (simp add: dl0 \<delta>_def)
  have v: "r0_of ?inp = 1772000" "b0_of ?inp = 2000" "H_of ?inp = 5 / 2" "d_norm ?inp = 15"
    "Va_in ?inp = 9 / 2" "wth_norm ?inp = 500" "Vr_in ?inp = 100" "B_in ?inp = 1000000"
    "fr_in ?inp = 2 / 5" "d_in ?inp = 15" "k9_in ?inp = 1 / 100"
    by (simp_all add: r0_of_def rho2_of_def b0_of_def H_of_def wth_norm_def d_norm_def
        default_inputs_def EPSILON_def)
  have ps: "Ps_of ?inp = 1"
    by (simp add: Ps_of_def Let_def TR_of_def math_pow_def default_inputs_def EPSILON_def)
  have ca: "0 \<le> Ca_of ?inp" "Ca_of ?inp \<le> 46000"
    by (simp_all add: Ca_of_def Let_def TC_of_def TR_of_def TB_of_def b0_of_def wth_norm_def
        d_norm_def default_inputs_def EPSILON_def)
  have "\<rho> = 4000 / ((1 / (1 + EPSILON)) powr (1 / 2))"
    by (simp add: rho ps v)
  moreover have "4000 / ((1 / (1 + EPSILON)) powr (1 / 2)) \<le> 4000 / (1 / 2)"
    using sqrt_T_rho_default by (intro frac_le) simp_all
  moreover have "0 \<le> 4000 / ((1 / (1 + EPSILON)) powr (1 / 2))" by simp
  ultimately have rb: "0 \<le> \<rho>" "\<rho> \<le> 8000" by simp_all
  have db: "0 \<le> \<delta>" "\<delta> \<le> 279000"
    using ca rb by (simp_all add: \<delta>_def v)
  have va: "EPSILON < Va_in ?inp" by (simp add: v EPSILON_def)
  have reinf: "(B_in ?inp * fr_in ?inp * Vr_in ?inp * Ps_calc st) / wth st = 80000"
    by (simp add: static_sel(1,3)[OF st] v ps)
  have H: "H_calc st = 5 / 2" "d st = 15" "wth st = 500" "Ps_calc st = 1"
    by (simp_all add: static_sel(1,2,3,4)[OF st] v ps)
  define s0 where "s0 = initial_state st"
  have i0: "simulation_active s0" "breakthrough_occurred_flag s0 = 0"
    "halt_occurred_this_scenario_flag s0 = 0" "rt_current s0 = Fin 1772000"
    "bt_current s0 = 2000" "G_cumulative s0 = 0"
    by (simp_all add: s0_def initial_state_def static_sel(6,7)[OF st] v)
  define s1 where "s1 = day_body 1 ?inp st 1 (s0\<lparr>day := 1, final_day_of_simulation := 1\<rparr>)"
  define x1 where "x1 = (if 1772000 - \<delta> < 0 then 0 else 1772000 - \<delta>)"
  have nh0: "\<not> halt_condition st (rt_current s0) (bt_current s0)"
    by (simp add: halt_condition_def i0 H EPSILON_def)
  have g0: "\<not> d st - EPSILON \<le> G_cumulative s0 + Va_in ?inp"
    by (simp add: H i0 v EPSILON_def)
  have p1: "0 < (1::nat)" "(1::nat) < MAX_SIMULATION_DAYS"
    by (simp_all add: MAX_SIMULATION_DAYS_def)
  have e1: "(1::nat) + 1 = 2" by simp
  note f1 = loop_advance[where sid = 1, OF i0(1-3) nh0 va dl i0(4) p1 g0,
      folded s1_def x1_def, unfolded e1]
  have l1: "daily_loop 1 ?inp st 1 s0 = daily_loop 1 ?inp st 2 s1"
    by (rule f1(1))
  have i1: "simulation_active s1" "breakthrough_occurred_flag s1 = 0"
    "halt_occurred_this_scenario_flag s1 = 0" "rt_current s1 = Fin x1"
    "bt_current s1 = 82000" "G_cumulative s1 = 9 / 2"
    using f1(2-7) by (simp_all add: MAX_SIMULATION_DAYS_def i0 v H reinf EPSILON_def)
  have x1: "1493000 \<le> x1" using db by (simp add: x1_def)
  define s2 where "s2 = day_body 1 ?inp st 2 (s1\<lparr>day := 2, final_day_of_simulation := 2\<rparr>)"
  define x2 where "x2 = (if x1 - \<delta> < 0 then 0 else x1 - \<delta>)"
  have nh1: "\<not> halt_condition st (rt_current s1) (bt_current s1)"
    using x1 by (simp add: halt_condition_def i1 H EPSILON_def)
  have g1: "\<not> d st - EPSILON \<le> G_cumulative s1 + Va_in ?inp"
    by (simp add: H i1 v EPSILON_def)
  have p2: "0 < (2::nat)" "(2::nat) < MAX_SIMULATION_DAYS"
    by (simp_all add: MAX_SIMULATION_DAYS_def)
  have e2: "(2::nat) + 1 = 3" by simp
  note f2 = loop_advance[where sid = 1, OF i1(1-3) nh1 va dl i1(4) p2 g1,
      folded s2_def x2_def, unfolded e2]
  have l2: "daily_loop 1 ?inp st 2 s1 = daily_loop 1 ?inp st 3 s2"
    by (rule f2(1))
  have i2: "simulation_active s2" "breakthrough_occurred_flag s2 = 0"
    "halt_occurred_this_scenario_flag s2 = 0" "rt_current s2 = Fin x2"
    "bt_current s2 = 162000" "G_cumulative s2 = 9"
    using f2(2-7) by (simp_all add: MAX_SIMULATION_DAYS_def i1 v H reinf EPSILON_def)
  have x2: "1214000 \<le> x2" using db x1 by (simp add: x2_def)
  define s3 where "s3 = day_body 1 ?inp st 3 (s2\<lparr>day := 3, final_day_of_simulation := 3\<rparr>)"
  define x3 where "x3 = (if x2 - \<delta> < 0 then 0 else x2 - \<delta>)"
  have nh2: "\<not> halt_condition st (rt_current s2) (bt_current s2)"
    using x2 by (simp add: halt_condition_def i2 H EPSILON_def)
  have g2: "\<not> d st - EPSILON \<le> G_cumulative s2 + Va_in ?inp"
    by (simp add: H i2 v EPSILON_def)
  have p3: "0 < (3::nat)" "(3::nat) < MAX_SIMULATION_DAYS"
    by (simp_all add: MAX_SIMULATION_DAYS_def)
  have e3: "(3::nat) + 1 = 4" by simp
  note f3 = loop_advance[where sid = 1, OF i2(1-3) nh2 va dl i2(4) p3 g2,
      folded s3_def x3_def, unfolded e3]
  have l3: "daily_loop 1 ?inp st 3 s2 = daily_loop 1 ?inp st 4 s3"
    by (rule f3(1))
  have i3: "simulation_active s3" "breakthrough_occurred_flag s3 = 0"
    "halt_occurred_this_scenario_flag s3 = 0" "rt_current s3 = Fin x3"
    "bt_current s3 = 242000" "G_cumulative s3 = 27 / 2"
    using f3(2-7) by (simp_all add: MAX_SIMULATION_DAYS_def i2 v H reinf EPSILON_def)
  have x3: "935000 \<le> x3" using db x2 by (simp add: x3_def)
  have nh3: "\<not> halt_condition st (rt_current s3) (bt_current s3)"
    using x3 by (simp add: halt_condition_def i3 H EPSILON_def)
  have g3: "d st - EPSILON \<le> G_cumulative s3 + Va_in ?inp"
    by (simp add: H i3 v EPSILON_def)
  have p4: "0 < (4::nat)" "(4::nat) \<le> MAX_SIMULATION_DAYS"
    by (simp_all add: MAX_SIMULATION_DAYS_def)
  note f4 = loop_breakthrough[where sid = 1, OF i3(1-3) nh3 va dl i3(4) p4 g3]
  let ?s = "final_state 1 ?inp st"
  have fs: "?s = after_loop st (daily_loop 1 ?inp st 4 s3)"
    unfolding final_state_def s0_def[symmetric] l1 l2 l3 ..
  have b: "breakthrough_occurred_flag ?s = 1" "G_cumulative ?s = 18"
    "final_day_of_simulation ?s = 4"
    unfolding fs using f4 by (simp_all add: MAX_SIMULATION_DAYS_def i3 v)
  have r: "simulate_one_scenario 1 ?inp =
      Inr (daily_log_for_scenario ?s, make_final_outcomes 1 ?inp ?s)"
    by (rule simulate_returns[OF st])
  have bo: "Breakthrough_Occurred (make_final_outcomes 1 ?inp ?s) = 1"
    using b by (simp add: make_final_outcomes_def)
  show ?thesis
    using breakthrough_requires_depth[OF r bo] b
    by (simp add: r make_final_outcomes_def v del: One_nat_def)
qed

section \<open>Derived parameters\<close>

lemma inf_times_zero_velocity:
  "delta_r_of inp PInf = (if 0 < Va_in inp then PInf else if Va_in inp < 0 then Fin 0 else NaN)"
  by (simp add: delta_r_of_def Let_def inf_times_def)

text \<open>
  What holds of the derived parameters: Ps lies in [0, 1] and Ca is not negative for all
  inputs; H and rho2 are not negative when the inputs they are computed from are in
  range; delta_r is not negative or infinite unless rho1 is infinite and the assault
  velocity is zero.
\<close>

lemma derived_parameter_ranges:
  assumes "static_calculations inp = Inr st"
  shows "0 \<le> Ps_calc st \<and> Ps_calc st \<le> 1"
    and "0 \<le> Ca_static_calc st"
    and "0 \<le> k1_in inp \<Longrightarrow> fe_in inp \<le> 1 \<Longrightarrow> 0 \<le> H_calc st"
    and "0 \<le> k3_in inp \<Longrightarrow> 0 \<le> B_in inp \<Longrightarrow> fr_in inp \<le> 1 \<Longrightarrow> 0 \<le> rho2_calc st"
    and "Va_in inp \<noteq> 0 \<or> rho1_calc st \<noteq> PInf \<Longrightarrow>
           delta_r_daily_rate st = PInf \<or> (\<exists>x. 0 \<le> x \<and> delta_r_daily_rate st = Fin x)"
proof -
  show "0 \<le> Ps_calc st \<and> Ps_calc st \<le> 1"
    using Ps_of_range[of inp] by (simp add: static_sel(3)[OF assms])
  show "0 \<le> Ca_static_calc st" using Ca_of_nonneg[of inp] by (simp add: static_sel(8)[OF assms])
  show "0 \<le> k1_in inp \<Longrightarrow> fe_in inp \<le> 1 \<Longrightarrow> 0 \<le> H_calc st"
    by (simp add: static_sel(4)[OF assms] H_of_def)
  show "0 \<le> k3_in inp \<Longrightarrow> 0 \<le> B_in inp \<Longrightarrow> fr_in inp \<le> 1 \<Longrightarrow> 0 \<le> rho2_calc st"
    using wth_norm_pos[of inp] by (simp add: static_sel(5)[OF assms] rho2_of_def)
  from static_sel(9)[OF assms] obtain dn where
    dn: "rho1_calc st = rho1_of inp dn" "delta_r_daily_rate st = delta_r_of inp (rho1_of inp dn)"
    by blast
  show "delta_r_daily_rate st = PInf \<or> (\<exists>x. 0 \<le> x \<and> delta_r_daily_rate st = Fin x)"
    if "Va_in inp \<noteq> 0 \<or> rho1_calc st \<noteq> PInf"
    using that rho1_of_cases[of inp dn] delta_r_of_cases[of inp "rho1_of inp dn"]
    by (auto simp: dn inf_times_zero_velocity delta_r_of_Fin)
qed

text \<open>
  C4 fails in the code for the attrition rate. With a defender of the year 2000, k4 = 10
  and an assault velocity of zero, the denominator of rho1 is below epsilon, rho1 is
  infinite, and \<open>2 * rho1 * Va\<close> is infinity times zero: delta_r is NaN, which the clamp
  of line 132 does not catch.
\<close>

theorem attrition_rate_nan_at_zero_velocity:
  "\<not> isl (static_calculations (default_inputs\<lparr>YB_in := 2000, Va_in := 0, k4_in := 10\<rparr>)) \<and>
   rho1_calc (projr (static_calculations
     (default_inputs\<lparr>YB_in := 2000, Va_in := 0, k4_in := 10\<rparr>))) = PInf \<and>
   delta_r_daily_rate (projr (static_calculations
     (default_inputs\<lparr>YB_in := 2000, Va_in := 0, k4_in := 10\<rparr>))) = NaN"
proof -
  let ?inp = "default_inputs\<lparr>YB_in := 2000, Va_in := 0, k4_in := 10\<rparr>"
  have T: "T_rho_of ?inp = 1 / (10 + EPSILON)"
    by (simp add: T_rho_of_def TR_of_def TB_of_def default_inputs_def EPSILON_def)
  have Tp: "0 < 1 / (10 + EPSILON)" "1 / (10 + EPSILON) \<le> 1 / 10"
    using EPSILON_pos by (simp_all add: field_simps)
  have k: "k4_in ?inp = 10" "Va_in ?inp = 0" "k9_in ?inp = 1 / 100" "B_in ?inp = 1000000"
    "fr_in ?inp = 2 / 5"
    by (simp_all add: default_inputs_def)
  have pw: "(1 / (10 + EPSILON)) powr 10 = (1 / (10 + EPSILON)) ^ 10"
    using Tp(1) by (simp only: powr_numeral)
  have "(1 / (10 + EPSILON)) ^ 10 \<le> (1 / 10) ^ 10"
    using Tp by (intro power_mono) simp_all
  moreover have "(1 / 10 :: real) ^ 10 < EPSILON" by (simp add: EPSILON_def power_divide)
  ultimately have "(1 / (10 + EPSILON)) ^ 10 < EPSILON" by (rule le_less_trans)
  moreover have "0 \<le> (1 / (10 + EPSILON)) ^ 10" using Tp(1) by simp
  ultimately have small: "\<bar>(1 / (10 + EPSILON)) powr 10\<bar> < EPSILON"
    unfolding pw by (simp only: abs_of_nonneg)
  have dn: "rho1_denominator_of ?inp = Inr (Some ((1 / (10 + EPSILON)) powr 10))"
    unfolding rho1_denominator_of_def T k using Tp(1) by (simp add: math_pow_def)
  have ps: "Ps_of ?inp = 1"
    by (simp add: Ps_of_def Let_def TR_of_def math_pow_def default_inputs_def EPSILON_def)
  have r1: "rho1_of ?inp (Some ((1 / (10 + EPSILON)) powr 10)) = PInf"
    unfolding rho1_of_def Let_def ps k using small by simp
  have dl: "delta_r_of ?inp PInf = NaN" by (simp add: inf_times_zero_velocity k)
  show ?thesis
    unfolding static_calculations_def dn by (simp add: r1 dl del: One_nat_def)
qed

section \<open>Range expansion and enumeration\<close>

lemma float_range_up_returns:
  assumes "0 < step"
  shows "\<exists>vs. float_range_up start e step acc = Some (acc @ vs) \<and>
              sorted_wrt (<) vs \<and> (\<forall>v \<in> set vs. start \<le> v \<and> v \<le> e + EPSILON)"
proof (induction k \<equiv> "nat (\<lfloor>(e + EPSILON - start) / step\<rfloor> + 1)"
       arbitrary: start acc rule: less_induct)
  case less
  show ?case
  proof (cases "start \<le> e + EPSILON")
    case False
    then have "float_range_up start e step acc = Some (acc @ [])"
      by (subst float_range_up.simps) simp
    then show ?thesis by force
  next
    case True
    have eq: "(e + EPSILON - (start + step)) / step = (e + EPSILON - start) / step - 1"
      using assms by (simp add: field_simps)
    have "0 \<le> (e + EPSILON - start) / step" using True assms by simp
    then have "0 \<le> \<lfloor>(e + EPSILON - start) / step\<rfloor>" by simp
    then have "nat (\<lfloor>(e + EPSILON - (start + step)) / step\<rfloor> + 1)
               < nat (\<lfloor>(e + EPSILON - start) / step\<rfloor> + 1)"
      unfolding eq by simp
    from less[OF this, of "acc @ [start]"] obtain vs where
      vs: "float_range_up (start + step) e step (acc @ [start]) = Some ((acc @ [start]) @ vs)"
        "sorted_wrt (<) vs" "\<forall>v \<in> set vs. start + step \<le> v \<and> v \<le> e + EPSILON"
      by blast
    have "float_range_up start e step acc = Some (acc @ (start # vs))"
      using True vs(1) by (subst float_range_up.simps) simp
    moreover have "sorted_wrt (<) (start # vs)" using vs(2,3) assms by fastforce
    moreover have "\<forall>v \<in> set (start # vs). start \<le> v \<and> v \<le> e + EPSILON"
      using vs(3) True assms by fastforce
    ultimately show ?thesis by blast
  qed
qed

lemma float_range_down_returns:
  assumes "step < 0"
  shows "\<exists>vs. float_range_down start e step acc = Some (acc @ vs) \<and>
              sorted_wrt (>) vs \<and> (\<forall>v \<in> set vs. v \<le> start \<and> e - EPSILON \<le> v)"
proof (induction k \<equiv> "nat (\<lfloor>(start - (e - EPSILON)) / (- step)\<rfloor> + 1)"
       arbitrary: start acc rule: less_induct)
  case less
  show ?case
  proof (cases "start \<ge> e - EPSILON")
    case False
    then have "float_range_down start e step acc = Some (acc @ [])"
      by (subst float_range_down.simps) simp
    then show ?thesis by force
  next
    case True
    have eq: "(start + step - (e - EPSILON)) / (- step) = (start - (e - EPSILON)) / (- step) - 1"
      using assms by (simp add: field_simps)
    have "0 \<le> (start - (e - EPSILON)) / (- step)"
      using True assms by (intro divide_nonneg_pos) simp_all
    then have "0 \<le> \<lfloor>(start - (e - EPSILON)) / (- step)\<rfloor>" by simp
    then have "nat (\<lfloor>(start + step - (e - EPSILON)) / (- step)\<rfloor> + 1)
               < nat (\<lfloor>(start - (e - EPSILON)) / (- step)\<rfloor> + 1)"
      unfolding eq by simp
    from less[OF this, of "acc @ [start]"] obtain vs where
      vs: "float_range_down (start + step) e step (acc @ [start]) = Some ((acc @ [start]) @ vs)"
        "sorted_wrt (>) vs" "\<forall>v \<in> set vs. v \<le> start + step \<and> e - EPSILON \<le> v"
      by blast
    have "float_range_down start e step acc = Some (acc @ (start # vs))"
      using True vs(1) by (subst float_range_down.simps) simp
    moreover have "sorted_wrt (>) (start # vs)" using vs(2,3) assms by fastforce
    moreover have "\<forall>v \<in> set (start # vs). v \<le> start \<and> e - EPSILON \<le> v"
      using vs(3) True assms by fastforce
    ultimately show ?thesis by blast
  qed
qed

text \<open>
  In exact arithmetic the expansion of a range with a step other than zero returns: an
  ascending list below \<open>end + EPSILON\<close> for a positive step, a descending list above
  \<open>end - EPSILON\<close> for a negative one. The proof counts the additions of the step that
  fit between start and the bound, so it says nothing about double-precision floats, in
  which an addition can leave \<open>start\<close> unchanged.
\<close>

lemma float_range_returns_over_reals:
  assumes "step \<noteq> 0"
  shows "\<exists>vs. float_range start e step = Some vs \<and>
              (if 0 < step
               then sorted_wrt (<) vs \<and> (\<forall>v \<in> set vs. start \<le> v \<and> v \<le> e + EPSILON)
               else sorted_wrt (>) vs \<and> (\<forall>v \<in> set vs. v \<le> start \<and> e - EPSILON \<le> v))"
proof (cases "0 < step")
  case True
  from float_range_up_returns[OF True, of start e "[]"] show ?thesis
    using True by (simp add: float_range_def)
next
  case False
  then have "step < 0" using assms by simp
  from float_range_down_returns[OF this, of start e "[]"] show ?thesis
    using False by (simp add: float_range_def)
qed

lemma float_range_sweep:
  "float_range 1000000 (1200000 + EPSILON) 100000 = Some [1000000, 1100000, 1200000]"
proof -
  have "float_range_up 1000000 (1200000 + EPSILON) 100000 [] =
        float_range_up 1100000 (1200000 + EPSILON) 100000 [1000000]"
    by (subst float_range_up.simps) (simp add: EPSILON_def)
  also have "\<dots> = float_range_up 1200000 (1200000 + EPSILON) 100000 [1000000, 1100000]"
    by (subst float_range_up.simps) (simp add: EPSILON_def)
  also have "\<dots> = float_range_up 1300000 (1200000 + EPSILON) 100000
                      [1000000, 1100000, 1200000]"
    by (subst float_range_up.simps) (simp add: EPSILON_def)
  also have "\<dots> = Some [1000000, 1100000, 1200000]"
    by (subst float_range_up.simps) (simp add: EPSILON_def)
  finally show ?thesis by (simp add: float_range_def)
qed

lemma py_round6_sweep:
  "py_round6 1000000 = 1000000" "py_round6 1100000 = 1100000" "py_round6 1200000 = 1200000"
  by (simp_all add: py_round6_def Let_def)

lemma sweep_values:
  "get_variable_values_from_user (Triple 1000000 1200000 100000) =
     Some (Values [1000000, 1100000, 1200000])"
  by (simp add: get_variable_values_from_user_def float_range_sweep py_round6_sweep)

lemma single_values:
  "scenario_value_lists (map Single vs @ specs) =
     (case scenario_value_lists specs of
        Some rest \<Rightarrow> Some (map (\<lambda>v. [v]) vs @ rest)
      | None \<Rightarrow> None)"
  by (induction vs) (simp_all add: get_variable_values_from_user_def split: option.splits)

lemma product_singletons_prefix:
  "itertools_product (map (\<lambda>v. [v]) vs @ xss) = map (\<lambda>rest. vs @ rest) (itertools_product xss)"
  by (induction vs) simp_all

lemma product_singletons: "itertools_product (map (\<lambda>v. [v]) vs) = [vs]"
  using product_singletons_prefix[of vs "[]"] by simp

text \<open>
  C8. If one variable is given as the triple (1000000, 1200000, 100000) and every other
  variable as a single value, the enumeration yields exactly three scenarios, with the
  identifiers 1, 2 and 3 in this order, in which the swept variable has the values
  1000000, 1100000 and 1200000 and every other variable its single value.
\<close>

theorem sweep_of_one_variable:
  "enumerate_scenarios (map Single before @ Triple 1000000 1200000 100000 # map Single after) =
     Some [(1, before @ 1000000 # after),
           (2, before @ 1100000 # after),
           (3, before @ 1200000 # after)]"
proof -
  have "scenario_value_lists (map Single after) = Some (map (\<lambda>v. [v]) after)"
    using single_values[of after "[]"] by simp
  then have "scenario_value_lists
               (map Single before @ Triple 1000000 1200000 100000 # map Single after) =
             Some (map (\<lambda>v. [v]) before @ [1000000, 1100000, 1200000] # map (\<lambda>v. [v]) after)"
    by (simp add: single_values sweep_values)
  moreover have "itertools_product
        (map (\<lambda>v. [v]) before @ [1000000, 1100000, 1200000] # map (\<lambda>v. [v]) after) =
      [before @ 1000000 # after, before @ 1100000 # after, before @ (1200000::real) # after]"
    by (simp add: product_singletons_prefix product_singletons)
  moreover have "[0 ..< 3] = [0, 1, 2::nat]" by (simp add: upt_rec)
  ultimately show ?thesis
    by (simp add: enumerate_scenarios_def Let_def)
qed

end
